theory Spec2Isabelle
  imports Complex_Main "HOL-Library.Sublist" "HOL-Library.Log_Nat"
begin

section \<open>JavaScript numbers\<close>

text \<open>
  A JavaScript number is an IEEE 754 double. \<open>Fin a\<close> is the finite double with the
  value \<open>a\<close>, \<open>Fin 0\<close> being the positive zero; \<open>NegZero\<close> is the negative zero. Every
  arithmetic operation computes the exact real result and rounds it to the nearest
  double, ties to the even mantissa; a result beyond the largest double becomes an
  infinity, one below the smallest subnormal a zero with the sign of the exact
  result.
\<close>

datatype jsnum = Fin real | NegZero | PInf | NInf | NaN

definition signed_inf :: "bool \<Rightarrow> jsnum" where
  "signed_inf positive = (if positive then PInf else NInf)"

definition signed_zero :: "bool \<Rightarrow> jsnum" where
  "signed_zero positive = (if positive then Fin 0 else NegZero)"

text \<open>
  Rounding. \<open>expo a\<close> is the binary exponent of a positive real, the integer \<open>e\<close> with
  \<open>2 ^ e \<le> a < 2 ^ (e + 1)\<close>. A double with this exponent is a multiple of
  \<open>2 ^ (e - 52)\<close>; below the exponent \<open>-1022\<close> of the smallest normal double the
  subnormal doubles are the multiples of \<open>2 ^ (-1074)\<close>.
\<close>

definition pow2 :: "int \<Rightarrow> real" where
  "pow2 k = (if 0 \<le> k then 2 ^ nat k else 1 / 2 ^ nat (- k))"

definition expo :: "real \<Rightarrow> int" where
  "expo a = (if 1 \<le> a then bitlen \<lfloor>a\<rfloor> - 1 else - bitlen (\<lceil>1 / a\<rceil> - 1))"

definition round_even :: "real \<Rightarrow> int" where
  "round_even x =
     (let n = \<lfloor>x\<rfloor>; f = x - of_int n
      in if f < 1 / 2 then n
         else if 1 / 2 < f then n + 1
         else if even n then n else n + 1)"

definition round_magnitude :: "real \<Rightarrow> real" where
  "round_magnitude a =
     (let e = max (expo a) (- 1022);
          u = pow2 (e - 52)
      in of_int (round_even (a / u)) * u)"

definition round_double :: "real \<Rightarrow> jsnum" where
  "round_double x =
     (if x = 0 then Fin 0
      else if pow2 1024 \<le> round_magnitude \<bar>x\<bar> then signed_inf (0 < x)
      else if round_magnitude \<bar>x\<bar> = 0 then signed_zero (0 < x)
      else Fin (if 0 < x then round_magnitude \<bar>x\<bar> else - round_magnitude \<bar>x\<bar>))"

text \<open>A decimal literal of the source denotes the double nearest to it.\<close>

definition double_of :: "real \<Rightarrow> jsnum" where
  "double_of x = round_double x"

text \<open>The value of a finite number, its sign bit, and whether it is a zero.\<close>

fun magnitude :: "jsnum \<Rightarrow> real" where
  "magnitude (Fin a) = a"
| "magnitude x = 0"

fun negative :: "jsnum \<Rightarrow> bool" where
  "negative (Fin a) = (a < 0)"
| "negative NegZero = True"
| "negative NInf = True"
| "negative x = False"

fun is_zero :: "jsnum \<Rightarrow> bool" where
  "is_zero (Fin a) = (a = 0)"
| "is_zero NegZero = True"
| "is_zero x = False"

text \<open>The arithmetic operators. An exact zero result takes its sign from the operands
  as IEEE 754 says: a sum is negative only if both operands are, a product or a
  quotient if exactly one is.\<close>

fun js_neg :: "jsnum \<Rightarrow> jsnum" where
  "js_neg (Fin a) = (if a = 0 then NegZero else Fin (- a))"
| "js_neg NegZero = Fin 0"
| "js_neg PInf = NInf"
| "js_neg NInf = PInf"
| "js_neg NaN = NaN"

fun js_add :: "jsnum \<Rightarrow> jsnum \<Rightarrow> jsnum" where
  "js_add NaN y = NaN"
| "js_add x NaN = NaN"
| "js_add PInf NInf = NaN"
| "js_add NInf PInf = NaN"
| "js_add PInf y = PInf"
| "js_add x PInf = PInf"
| "js_add NInf y = NInf"
| "js_add x NInf = NInf"
| "js_add x y =
     (if magnitude x + magnitude y = 0 then signed_zero (\<not> (negative x \<and> negative y))
      else round_double (magnitude x + magnitude y))"

definition js_sub :: "jsnum \<Rightarrow> jsnum \<Rightarrow> jsnum" where
  "js_sub x y = js_add x (js_neg y)"

fun js_mul :: "jsnum \<Rightarrow> jsnum \<Rightarrow> jsnum" where
  "js_mul NaN y = NaN"
| "js_mul x NaN = NaN"
| "js_mul PInf y = (if is_zero y then NaN else signed_inf (\<not> negative y))"
| "js_mul NInf y = (if is_zero y then NaN else signed_inf (negative y))"
| "js_mul x PInf = (if is_zero x then NaN else signed_inf (\<not> negative x))"
| "js_mul x NInf = (if is_zero x then NaN else signed_inf (negative x))"
| "js_mul x y =
     (if magnitude x * magnitude y = 0 then signed_zero (negative x = negative y)
      else round_double (magnitude x * magnitude y))"

fun js_div :: "jsnum \<Rightarrow> jsnum \<Rightarrow> jsnum" where
  "js_div NaN y = NaN"
| "js_div x NaN = NaN"
| "js_div PInf PInf = NaN"
| "js_div PInf NInf = NaN"
| "js_div NInf PInf = NaN"
| "js_div NInf NInf = NaN"
| "js_div PInf y = signed_inf (\<not> negative y)"
| "js_div NInf y = signed_inf (negative y)"
| "js_div x PInf = signed_zero (\<not> negative x)"
| "js_div x NInf = signed_zero (negative x)"
| "js_div x y =
     (if is_zero y then (if is_zero x then NaN else signed_inf (negative x = negative y))
      else if is_zero x then signed_zero (negative x = negative y)
      else round_double (magnitude x / magnitude y))"

text \<open>The relational operators: every comparison with \<open>NaN\<close> is false, and the two
  zeros are equal.\<close>

fun js_lt :: "jsnum \<Rightarrow> jsnum \<Rightarrow> bool" where
  "js_lt NaN y = False"
| "js_lt x NaN = False"
| "js_lt PInf y = False"
| "js_lt x PInf = True"
| "js_lt x NInf = False"
| "js_lt NInf y = True"
| "js_lt x y = (magnitude x < magnitude y)"

definition js_gt :: "jsnum \<Rightarrow> jsnum \<Rightarrow> bool" where
  "js_gt x y = js_lt y x"

fun js_ge :: "jsnum \<Rightarrow> jsnum \<Rightarrow> bool" where
  "js_ge NaN y = False"
| "js_ge x NaN = False"
| "js_ge x y = (\<not> js_lt x y)"

text \<open>
  \<open>Math.min\<close> of two arguments (the negative zero is the smaller zero) and
  \<open>Math.round\<close> (the nearest integer, a tie goes up; the result of rounding a double is
  a double, so nothing is rounded twice). \<open>Math.pow\<close> is modelled for a non-negative
  integer exponent, the only way the program calls it, as the correctly rounded power;
  the language lets an implementation return an approximation of it.
\<close>

fun js_min :: "jsnum \<Rightarrow> jsnum \<Rightarrow> jsnum" where
  "js_min NaN y = NaN"
| "js_min x NaN = NaN"
| "js_min x y =
     (if js_lt y x then y else if js_lt x y then x else if negative y then y else x)"

fun js_round :: "jsnum \<Rightarrow> jsnum" where
  "js_round (Fin a) =
     (if \<lfloor>a + 1 / 2\<rfloor> = 0 then signed_zero (0 \<le> a) else Fin (of_int \<lfloor>a + 1 / 2\<rfloor>))"
| "js_round x = x"

fun js_pow :: "jsnum \<Rightarrow> nat \<Rightarrow> jsnum" where
  "js_pow x 0 = Fin 1"
| "js_pow (Fin a) n = (if a = 0 then Fin 0 else round_double (a ^ n))"
| "js_pow NegZero n = signed_zero (even n)"
| "js_pow PInf n = PInf"
| "js_pow NInf n = signed_inf (even n)"
| "js_pow NaN n = NaN"

section \<open>JavaScript values\<close>

text \<open>
  A field that holds a number may also be \<open>null\<close> (the parsers return \<open>null\<close> for a
  missing price) or \<open>undefined\<close> (the rent estimate that was never assigned).
  \<open>to_number\<close> is the conversion the arithmetic operators apply to their operands and
  \<open>truthy\<close> the one a condition applies.
\<close>

datatype jsval = Undefined | Null | Number jsnum

fun to_number :: "jsval \<Rightarrow> jsnum" where
  "to_number Undefined = NaN"
| "to_number Null = Fin 0"
| "to_number (Number n) = n"

fun truthy_num :: "jsnum \<Rightarrow> bool" where
  "truthy_num (Fin a) = (a \<noteq> 0)"
| "truthy_num NegZero = False"
| "truthy_num NaN = False"
| "truthy_num x = True"

fun truthy :: "jsval \<Rightarrow> bool" where
  "truthy (Number n) = truthy_num n"
| "truthy v = False"

text \<open>A thrown value: a \<open>TypeError\<close> of the runtime (a property read on \<open>undefined\<close> or
  \<open>null\<close>) or an \<open>Error\<close> the program throws, with its message.\<close>

datatype error = TypeError string | Error string

fun message :: "error \<Rightarrow> string" where
  "message (TypeError m) = m"
| "message (Error m) = m"

section \<open>Strings\<close>

text \<open>
  A string is the sequence of the bytes of its UTF-8 encoding. \<open>toLowerCase\<close> is
  modelled on the ASCII letters: the words the program looks for in a lowered string
  (\<open>madrid\<close>, \<open>barcelona\<close>, the platform names) are ASCII, and no other character is
  lowered to one of their letters alone.
\<close>

definition lower_char :: "char \<Rightarrow> char" where
  "lower_char c =
     (case map_of (zip ''ABCDEFGHIJKLMNOPQRSTUVWXYZ'' ''abcdefghijklmnopqrstuvwxyz'') c of
        None \<Rightarrow> c | Some d \<Rightarrow> d)"

definition toLowerCase :: "string \<Rightarrow> string" where
  "toLowerCase s = map lower_char s"

definition startsWith :: "string \<Rightarrow> string \<Rightarrow> bool" where
  "startsWith s t = (take (length t) s = t)"

fun includes_str :: "string \<Rightarrow> string \<Rightarrow> bool" where
  "includes_str [] t = (t = [])"
| "includes_str (c # cs) t = (startsWith (c # cs) t \<or> includes_str cs t)"

section \<open>The property record and its metrics\<close>

record expenses =
  propertyTax :: jsnum
  insurance :: jsnum
  maintenance :: jsnum
  managementFees :: jsnum

record financial =
  purchasePrice :: jsval
  estimatedMonthlyRent :: jsval
  annualRentalIncome :: jsnum
  expenses :: expenses
  totalExpenses :: jsnum
  netOperatingIncome :: jsnum
  capRate :: jsnum
  cashOnCashReturn :: jsnum
  rentalYield :: jsnum
  pricePerSquareMeter :: jsnum
  breakEvenOccupancy :: jsnum
  mortgagePayment :: jsnum

record factors =
  location :: string
  propertyType :: string
  rentalYield :: jsnum

record risk =
  overall :: string
  score :: jsnum
  factors :: factors

record source_info =
  source_platform :: string
  source_url :: string
  source_scrapedAt :: string

text \<open>
  The record the parsers return. \<open>location\<close> is \<open>None\<close> when the object has no such
  property and \<open>features\<close> is \<open>None\<close> when the object has no \<open>features\<close> property.
  The enriched record is the same object with the two properties
  \<open>calculateInvestmentMetrics\<close> adds; each is \<open>None\<close> on an object that lacks it.
\<close>

record property =
  propertyAddress :: string
  location :: "string option"
  purchasePrice :: jsval
  estimatedMonthlyRent :: jsval
  squareMeters :: jsnum
  bedrooms :: jsnum
  bathrooms :: jsnum
  propertyType :: string
  features :: "string list option"
  source :: source_info

record enriched = property +
  financialMetrics :: "financial option"
  riskAssessment :: "risk option"

text \<open>\<open>assessRisk\<close>: reading \<open>propertyData.location.toLowerCase\<close> throws a \<open>TypeError\<close>
  when the object has no location.\<close>

definition assessRisk :: "'a property_scheme \<Rightarrow> error + risk" where
  "assessRisk propertyData =
     (case property.location propertyData of
        None \<Rightarrow> Inl (TypeError ''Cannot read properties of undefined (reading 'toLowerCase')'')
      | Some loc \<Rightarrow>
          let score0 = Fin 70;
              score1 = (if includes_str (toLowerCase loc) ''madrid'' \<or>
                           includes_str (toLowerCase loc) ''barcelona''
                        then js_add score0 (Fin 10) else score0);
              rentalYield =
                js_mul (js_div (js_mul (to_number (property.estimatedMonthlyRent propertyData)) (Fin 12))
                               (to_number (property.purchasePrice propertyData)))
                       (Fin 100);
              score2 = (if js_gt rentalYield (Fin 5) then js_add score1 (Fin 10)
                        else if js_lt rentalYield (Fin 3) then js_sub score1 (Fin 10)
                        else score1);
              riskCategory =
                (if js_ge score2 (Fin 85) then ''Very Low''
                 else if js_ge score2 (Fin 70) then ''Low''
                 else if js_ge score2 (Fin 50) then ''Medium''
                 else if js_ge score2 (Fin 30) then ''High''
                 else ''Very High'')
          in Inr \<lparr>overall = riskCategory, score = score2,
                  factors = \<lparr>factors.location = loc,
                              factors.propertyType = property.propertyType propertyData,
                              factors.rentalYield = rentalYield\<rparr>\<rparr>)"

text \<open>\<open>calculateInvestmentMetrics\<close>. The only statement that can throw is the call of
  \<open>assessRisk\<close>; the arithmetic before it never does.\<close>

definition calculateInvestmentMetrics :: "property \<Rightarrow> error + enriched" where
  "calculateInvestmentMetrics propertyData =
     (let purchasePrice = property.purchasePrice propertyData;
          estimatedMonthlyRent = property.estimatedMonthlyRent propertyData;
          squareMeters = property.squareMeters propertyData;
          annualRentalIncome = js_mul (to_number estimatedMonthlyRent) (Fin 12);
          propertyTax = js_mul (to_number purchasePrice) (double_of 0.005);
          insurance = js_mul (to_number purchasePrice) (double_of 0.002);
          maintenance = js_mul (to_number purchasePrice) (double_of 0.01);
          managementFees = js_mul annualRentalIncome (double_of 0.08);
          totalExpenses = js_add (js_add (js_add propertyTax insurance) maintenance) managementFees;
          netOperatingIncome = js_sub annualRentalIncome totalExpenses;
          capRate = js_mul (js_div netOperatingIncome (to_number purchasePrice)) (Fin 100);
          downPayment = js_mul (to_number purchasePrice) (double_of 0.3);
          loanAmount = js_sub (to_number purchasePrice) downPayment;
          interestRate = Fin 3.5;
          loanTerm = 30;
          monthlyInterestRate = js_div (js_div interestRate (Fin 100)) (Fin 12);
          totalPayments = loanTerm * 12;
          monthlyMortgagePayment =
            js_div (js_mul (js_mul loanAmount monthlyInterestRate)
                           (js_pow (js_add (Fin 1) monthlyInterestRate) totalPayments))
                   (js_sub (js_pow (js_add (Fin 1) monthlyInterestRate) totalPayments) (Fin 1));
          annualMortgagePayment = js_mul monthlyMortgagePayment (Fin 12);
          annualCashFlow = js_sub netOperatingIncome annualMortgagePayment;
          cashOnCashReturn = js_mul (js_div annualCashFlow downPayment) (Fin 100);
          rentalYield = js_mul (js_div annualRentalIncome (to_number purchasePrice)) (Fin 100);
          pricePerSquareMeter = js_div (to_number purchasePrice) squareMeters
      in case assessRisk propertyData of
           Inl e \<Rightarrow> Inl e
         | Inr assessed \<Rightarrow>
             Inr (property.extend propertyData
               \<lparr>financialMetrics = Some
                  \<lparr>financial.purchasePrice = purchasePrice,
                   financial.estimatedMonthlyRent = estimatedMonthlyRent,
                   annualRentalIncome = annualRentalIncome,
                   expenses = \<lparr>propertyTax = propertyTax, insurance = insurance,
                                maintenance = maintenance, managementFees = managementFees\<rparr>,
                   totalExpenses = totalExpenses,
                   netOperatingIncome = netOperatingIncome,
                   capRate = capRate,
                   cashOnCashReturn = cashOnCashReturn,
                   financial.rentalYield = rentalYield,
                   pricePerSquareMeter = pricePerSquareMeter,
                   breakEvenOccupancy = js_mul (js_div totalExpenses annualRentalIncome) (Fin 100),
                   mortgagePayment = monthlyMortgagePayment\<rparr>,
                riskAssessment = Some assessed\<rparr>))"

section \<open>More of the string library\<close>

text \<open>
  The white space and line terminator characters of the language, each as the bytes
  of its UTF-8 encoding: tab, line feed, vertical tab, form feed, carriage return,
  space, U+00A0, U+1680, U+2000 to U+200A, U+2028, U+2029, U+202F, U+205F, U+3000 and
  U+FEFF.
\<close>

definition white_space :: "string list" where
  "white_space =
     [[CHR 0x09], [CHR 0x0A], [CHR 0x0B], [CHR 0x0C], [CHR 0x0D], [CHR 0x20],
      [CHR 0xC2, CHR 0xA0],
      [CHR 0xE1, CHR 0x9A, CHR 0x80],
      [CHR 0xE2, CHR 0x80, CHR 0x80], [CHR 0xE2, CHR 0x80, CHR 0x81],
      [CHR 0xE2, CHR 0x80, CHR 0x82], [CHR 0xE2, CHR 0x80, CHR 0x83],
      [CHR 0xE2, CHR 0x80, CHR 0x84], [CHR 0xE2, CHR 0x80, CHR 0x85],
      [CHR 0xE2, CHR 0x80, CHR 0x86], [CHR 0xE2, CHR 0x80, CHR 0x87],
      [CHR 0xE2, CHR 0x80, CHR 0x88], [CHR 0xE2, CHR 0x80, CHR 0x89],
      [CHR 0xE2, CHR 0x80, CHR 0x8A],
      [CHR 0xE2, CHR 0x80, CHR 0xA8], [CHR 0xE2, CHR 0x80, CHR 0xA9],
      [CHR 0xE2, CHR 0x80, CHR 0xAF],
      [CHR 0xE2, CHR 0x81, CHR 0x9F],
      [CHR 0xE3, CHR 0x80, CHR 0x80],
      [CHR 0xEF, CHR 0xBB, CHR 0xBF]]"

text \<open>\<open>drop_leading ws n s\<close> removes from the front of \<open>s\<close> up to \<open>n\<close> of the sequences
  in \<open>ws\<close>; \<open>trim\<close> removes the white space at both ends.\<close>

fun drop_leading :: "string list \<Rightarrow> nat \<Rightarrow> string \<Rightarrow> string" where
  "drop_leading ws 0 s = s"
| "drop_leading ws (Suc n) s =
     (case find (startsWith s) ws of
        None \<Rightarrow> s
      | Some w \<Rightarrow> drop_leading ws n (drop (length w) s))"

definition trimStart :: "string \<Rightarrow> string" where
  "trimStart s = drop_leading white_space (length s) s"

definition trimEnd :: "string \<Rightarrow> string" where
  "trimEnd s = rev (drop_leading (map rev white_space) (length s) (rev s))"

definition trim :: "string \<Rightarrow> string" where
  "trim s = trimEnd (trimStart s)"

text \<open>\<open>parseInt\<close> with radix 10 skips leading white space, reads an optional sign and
  the longest run of decimal digits, and is \<open>NaN\<close> when there is no digit; the
  integer read is rounded to a double.\<close>

definition is_digit :: "char \<Rightarrow> bool" where
  "is_digit c = (c \<in> set ''0123456789'')"

definition digit_value :: "char \<Rightarrow> nat" where
  "digit_value c =
     (case map_of (zip ''0123456789'' [0, 1, 2, 3, 4, 5, 6, 7, 8, 9]) c of
        None \<Rightarrow> 0 | Some d \<Rightarrow> d)"

definition digits_value :: "string \<Rightarrow> nat" where
  "digits_value ds = foldl (\<lambda>acc c. 10 * acc + digit_value c) 0 ds"

definition parseInt :: "string \<Rightarrow> jsnum" where
  "parseInt s =
     (let s1 = trimStart s;
          minus = (s1 \<noteq> [] \<and> hd s1 = CHR ''-'');
          s2 = (if s1 \<noteq> [] \<and> (hd s1 = CHR ''-'' \<or> hd s1 = CHR ''+'') then tl s1 else s1);
          ds = takeWhile is_digit s2
      in if ds = [] then NaN
         else if minus then js_neg (round_double (real (digits_value ds)))
         else round_double (real (digits_value ds)))"

text \<open>\<open>text.replace(/[^0-9]/g, '')\<close> keeps the decimal digits.\<close>

definition strip_non_digits :: "string \<Rightarrow> string" where
  "strip_non_digits s = filter is_digit s"

text \<open>
  \<open>text.match(/\\d+/)\<close> as the parsers write it: inside a regular expression literal
  \<open>\\\<close> is an escaped backslash, so the pattern is a backslash followed by one or more
  letters \<open>d\<close>. The result is the matched text at the leftmost position, or \<open>None\<close>
  for \<open>null\<close>.
\<close>

definition backslash :: char where
  "backslash = CHR 0x5C"

fun match_backslash_d :: "string \<Rightarrow> string option" where
  "match_backslash_d [] = None"
| "match_backslash_d (c # cs) =
     (if c = backslash \<and> cs \<noteq> [] \<and> hd cs = CHR ''d''
      then Some (c # takeWhile (\<lambda>x. x = CHR ''d'') cs)
      else match_backslash_d cs)"

text \<open>\<open>parseInt(text.match(/\\d+/)[0], 10)\<close>: indexing \<open>null\<close> throws a \<open>TypeError\<close>.\<close>

definition parse_first_number :: "string \<Rightarrow> error + jsnum" where
  "parse_first_number text =
     (case match_backslash_d text of
        None \<Rightarrow> Inl (TypeError ''Cannot read properties of null (reading '0')'')
      | Some m \<Rightarrow> Inr (parseInt m))"

text \<open>
  \<open>aiResponse.match(/score.*?(\d+)/i)\<close>, reduced to its first capture group: at the
  leftmost position where \<open>score\<close> matches in any letter case and a digit follows on
  the same line, the longest run of digits that starts at the first such digit. A line
  ends at a line feed, a carriage return, U+2028 or U+2029.
\<close>

definition line_terminator :: "string \<Rightarrow> bool" where
  "line_terminator s =
     (startsWith s [CHR 0x0A] \<or> startsWith s [CHR 0x0D] \<or>
      startsWith s [CHR 0xE2, CHR 0x80, CHR 0xA8] \<or>
      startsWith s [CHR 0xE2, CHR 0x80, CHR 0xA9])"

fun first_digits :: "string \<Rightarrow> string option" where
  "first_digits [] = None"
| "first_digits (c # cs) =
     (if is_digit c then Some (takeWhile is_digit (c # cs))
      else if line_terminator (c # cs) then None
      else first_digits cs)"

fun score_match :: "string \<Rightarrow> string option" where
  "score_match [] = None"
| "score_match (c # cs) =
     (if startsWith (toLowerCase (c # cs)) ''score''
      then (case first_digits (drop 5 (c # cs)) of
              Some ds \<Rightarrow> Some ds
            | None \<Rightarrow> score_match cs)
      else score_match cs)"

section \<open>The site parsers\<close>

text \<open>
  A loaded page, as far as the parsers look at it: its URL, the first element a
  selector matches and all the elements it matches. Of an element the parsers read the
  text content, the text content of the next sibling element and the text contents of
  the \<open>li\<close> elements below it.
\<close>

record element =
  textContent :: string
  nextElementSibling :: "string option"
  listItems :: "string list"

record page =
  page_url :: string
  querySelector :: "string \<Rightarrow> element option"
  querySelectorAll :: "string \<Rightarrow> element list"

text \<open>The \<open>details\<close> object the parsers fill in; a property never assigned is \<open>None\<close>.\<close>

record details =
  d_squareMeters :: "jsnum option"
  d_bedrooms :: "jsnum option"
  d_bathrooms :: "jsnum option"
  d_propertyType :: "string option"

definition no_details :: details where
  "no_details = \<lparr>d_squareMeters = None, d_bedrooms = None, d_bathrooms = None,
                  d_propertyType = None\<rparr>"

text \<open>\<open>x || 0\<close> on a number that may be missing and \<open>x || 'Apartment'\<close> on a string that
  may be missing.\<close>

definition or_zero :: "jsnum option \<Rightarrow> jsnum" where
  "or_zero x = (case x of None \<Rightarrow> Fin 0 | Some n \<Rightarrow> if truthy_num n then n else Fin 0)"

definition or_apartment :: "string option \<Rightarrow> string" where
  "or_apartment x = (case x of None \<Rightarrow> ''Apartment'' | Some s \<Rightarrow> if s = [] then ''Apartment'' else s)"

text \<open>The text of the first match of a selector, trimmed, or the empty string.\<close>

definition trimmed_text :: "page \<Rightarrow> string \<Rightarrow> string" where
  "trimmed_text pg sel =
     (case querySelector pg sel of None \<Rightarrow> [] | Some el \<Rightarrow> trim (textContent el))"

text \<open>The price: \<open>null\<close> without the element, else the digits of its text read as an
  integer.\<close>

definition extract_price :: "page \<Rightarrow> string \<Rightarrow> jsval" where
  "extract_price pg sel =
     (case querySelector pg sel of
        None \<Rightarrow> Null
      | Some el \<Rightarrow> Number (parseInt (strip_non_digits (trim (textContent el)))))"

text \<open>A numeric detail read from the first match of a selector, when there is one.\<close>

definition extract_number :: "page \<Rightarrow> string \<Rightarrow> error + jsnum option" where
  "extract_number pg sel =
     (case querySelector pg sel of
        None \<Rightarrow> Inr None
      | Some el \<Rightarrow>
          (case parse_first_number (trim (textContent el)) of
             Inl e \<Rightarrow> Inl e
           | Inr n \<Rightarrow> Inr (Some n)))"

text \<open>The rent estimate: assigned only when the price is truthy.\<close>

definition estimate_rent :: "jsval \<Rightarrow> jsval" where
  "estimate_rent price =
     (if truthy price
      then Number (js_round (js_div (js_mul (to_number price) (double_of 0.045)) (Fin 12)))
      else Undefined)"

text \<open>The \<open>catch\<close> of every parser wraps the error with the name of the site.\<close>

definition parse_failure :: "string \<Rightarrow> error \<Rightarrow> error" where
  "parse_failure site e = Error (''Failed to parse '' @ site @ '' data: '' @ message e)"

text \<open>\<open>parseIdealista\<close>. The second argument is the capture time the parser stamps on
  the record (\<open>new Date().toISOString()\<close>).\<close>

definition parseIdealista :: "page \<Rightarrow> string \<Rightarrow> error + property" where
  \<open>parseIdealista pg now =
     (let propertyAddress =
            trim (trimmed_text pg ''.main-info__title-main'' @ '', '' @
                  trimmed_text pg ''.main-info__title-minor'');
          purchasePrice = extract_price pg ''[data-testid="price"]''
      in case extract_number pg ''[data-testid="house-surface-area"]'' of
           Inl e \<Rightarrow> Inl (parse_failure ''Idealista'' e)
         | Inr sqm \<Rightarrow>
        (case extract_number pg ''[data-testid="house-bedrooms"]'' of
           Inl e \<Rightarrow> Inl (parse_failure ''Idealista'' e)
         | Inr beds \<Rightarrow>
        (case extract_number pg ''[data-testid="house-bathrooms"]'' of
           Inl e \<Rightarrow> Inl (parse_failure ''Idealista'' e)
         | Inr baths \<Rightarrow>
             let propertyDetails =
                   \<lparr>d_squareMeters = sqm, d_bedrooms = beds, d_bathrooms = baths,
                    d_propertyType =
                      (case querySelector pg ''.property-type'' of
                         None \<Rightarrow> None
                       | Some el \<Rightarrow> Some (trim (textContent el)))\<rparr>;
                 features =
                   (case querySelector pg ''.details-property-feature-one'' of
                      None \<Rightarrow> []
                    | Some el \<Rightarrow> map trim (listItems el));
                 locationData = trimmed_text pg ''.main-info__title-minor'';
                 estimatedMonthlyRent = estimate_rent purchasePrice
             in Inr \<lparr>propertyAddress = propertyAddress,
                     location = Some locationData,
                     purchasePrice = purchasePrice,
                     estimatedMonthlyRent = estimatedMonthlyRent,
                     squareMeters = or_zero (d_squareMeters propertyDetails),
                     bedrooms = or_zero (d_bedrooms propertyDetails),
                     bathrooms = or_zero (d_bathrooms propertyDetails),
                     propertyType = or_apartment (d_propertyType propertyDetails),
                     features = Some features,
                     source = \<lparr>source_platform = ''idealista'', source_url = page_url pg,
                                source_scrapedAt = now\<rparr>\<rparr>)))\<close>

text \<open>\<open>parseFotocasa\<close>: the details come from a loop over the feature labels; the
  callback of \<open>forEach\<close> is \<open>fotocasa_feature\<close>. The label for the bathrooms is written
  with the two UTF-8 bytes of its letter n with tilde.\<close>

definition banos :: string where
  "banos = [CHR ''B'', CHR ''a'', CHR 0xC3, CHR 0xB1, CHR ''o'', CHR ''s'']"

definition fotocasa_feature :: "element \<Rightarrow> details \<Rightarrow> error + details" where
  "fotocasa_feature el ds =
     (let featureText = trim (textContent el);
          valueText = (case nextElementSibling el of None \<Rightarrow> [] | Some t \<Rightarrow> trim t)
      in if includes_str featureText ''Superficie''
         then (case parse_first_number valueText of
                 Inl e \<Rightarrow> Inl e | Inr n \<Rightarrow> Inr (ds\<lparr>d_squareMeters := Some n\<rparr>))
         else if includes_str featureText ''Habitaciones''
         then (case parse_first_number valueText of
                 Inl e \<Rightarrow> Inl e | Inr n \<Rightarrow> Inr (ds\<lparr>d_bedrooms := Some n\<rparr>))
         else if includes_str featureText banos
         then (case parse_first_number valueText of
                 Inl e \<Rightarrow> Inl e | Inr n \<Rightarrow> Inr (ds\<lparr>d_bathrooms := Some n\<rparr>))
         else if includes_str featureText ''Tipo''
         then Inr (ds\<lparr>d_propertyType := Some valueText\<rparr>)
         else Inr ds)"

fun fotocasa_features :: "element list \<Rightarrow> details \<Rightarrow> error + details" where
  "fotocasa_features [] ds = Inr ds"
| "fotocasa_features (el # els) ds =
     (case fotocasa_feature el ds of
        Inl e \<Rightarrow> Inl e
      | Inr ds' \<Rightarrow> fotocasa_features els ds')"

definition parseFotocasa :: "page \<Rightarrow> string \<Rightarrow> error + property" where
  "parseFotocasa pg now =
     (let propertyAddress = trimmed_text pg ''.re-DetailHeader-propertyTitle'';
          purchasePrice = extract_price pg ''.re-DetailHeader-price''
      in case fotocasa_features (querySelectorAll pg ''.re-DetailFeaturesList-featureLabel'')
                no_details of
           Inl e \<Rightarrow> Inl (parse_failure ''Fotocasa'' e)
         | Inr propertyDetails \<Rightarrow>
             let locationData = trimmed_text pg ''.re-DetailMap-address'';
                 estimatedMonthlyRent = estimate_rent purchasePrice
             in Inr \<lparr>propertyAddress = propertyAddress,
                     location = Some locationData,
                     purchasePrice = purchasePrice,
                     estimatedMonthlyRent = estimatedMonthlyRent,
                     squareMeters = or_zero (d_squareMeters propertyDetails),
                     bedrooms = or_zero (d_bedrooms propertyDetails),
                     bathrooms = or_zero (d_bathrooms propertyDetails),
                     propertyType = or_apartment (d_propertyType propertyDetails),
                     features = None,
                     source = \<lparr>source_platform = ''fotocasa'', source_url = page_url pg,
                                source_scrapedAt = now\<rparr>\<rparr>)"

text \<open>\<open>parseHabitaclia\<close>: the property type is the last item of the breadcrumb.\<close>

definition parseHabitaclia :: "page \<Rightarrow> string \<Rightarrow> error + property" where
  "parseHabitaclia pg now =
     (let propertyAddress = trimmed_text pg ''.property-title'';
          purchasePrice = extract_price pg ''.price''
      in case extract_number pg ''.feature-container .icon-m2 + span'' of
           Inl e \<Rightarrow> Inl (parse_failure ''Habitaclia'' e)
         | Inr sqm \<Rightarrow>
        (case extract_number pg ''.feature-container .icon-rooms + span'' of
           Inl e \<Rightarrow> Inl (parse_failure ''Habitaclia'' e)
         | Inr beds \<Rightarrow>
        (case extract_number pg ''.feature-container .icon-bathrooms + span'' of
           Inl e \<Rightarrow> Inl (parse_failure ''Habitaclia'' e)
         | Inr baths \<Rightarrow>
             let breadcrumbItems = querySelectorAll pg ''.breadcrumb li'';
                 propertyDetails =
                   \<lparr>d_squareMeters = sqm, d_bedrooms = beds, d_bathrooms = baths,
                    d_propertyType =
                      (if length breadcrumbItems > 0
                       then Some (trim (textContent (last breadcrumbItems)))
                       else None)\<rparr>;
                 locationData = trimmed_text pg ''.location'';
                 estimatedMonthlyRent = estimate_rent purchasePrice
             in Inr \<lparr>propertyAddress = propertyAddress,
                     location = Some locationData,
                     purchasePrice = purchasePrice,
                     estimatedMonthlyRent = estimatedMonthlyRent,
                     squareMeters = or_zero (d_squareMeters propertyDetails),
                     bedrooms = or_zero (d_bedrooms propertyDetails),
                     bathrooms = or_zero (d_bathrooms propertyDetails),
                     propertyType = or_apartment (d_propertyType propertyDetails),
                     features = None,
                     source = \<lparr>source_platform = ''habitaclia'', source_url = page_url pg,
                                source_scrapedAt = now\<rparr>\<rparr>)))"

section \<open>The scrape orchestrator\<close>

text \<open>
  The state \<open>scrapeProperty\<close> works on: the module's cache, and two counters that record
  its effects on the browser layer, the calls of \<open>puppeteer.launch\<close> and of
  \<open>browser.close\<close>.
\<close>

record cache_entry =
  timestamp :: int
  data :: property

record scraper_state =
  propertyCache :: "string \<rightharpoonup> cache_entry"
  launches :: nat
  closes :: nat

definition CACHE_TTL :: int where
  "CACHE_TTL = 3600000"

text \<open>
  What the world answers during one call: the two readings of \<open>Date.now()\<close> (at the
  cache check and when the result is stored), the time stamp the parser takes, how the
  browser session goes, and the error of \<open>browser.close()\<close> if it rejects.
\<close>

datatype session = LaunchFails error | NavigationFails error | Loaded page

record world =
  now_check :: int
  now_store :: int
  now_iso :: string
  session :: session
  close_error :: "error option"

text \<open>The \<open>switch\<close> on the platform name.\<close>

definition dispatch :: "string \<Rightarrow> page \<Rightarrow> string \<Rightarrow> error + property" where
  "dispatch platform pg now =
     (if toLowerCase platform = ''idealista'' then parseIdealista pg now
      else if toLowerCase platform = ''fotocasa'' then parseFotocasa pg now
      else if toLowerCase platform = ''habitaclia'' then parseHabitaclia pg now
      else Inl (Error (''Unsupported platform: '' @ platform)))"

text \<open>The \<open>finally\<close> block after a launched browser: the browser is closed, and an
  error of \<open>close\<close> replaces the outcome of the call.\<close>

definition close_browser ::
  "world \<Rightarrow> (error + property) \<times> scraper_state \<Rightarrow> (error + property) \<times> scraper_state" where
  "close_browser w out =
     (case close_error w of
        None \<Rightarrow> (fst out, (snd out)\<lparr>closes := closes (snd out) + 1\<rparr>)
      | Some e \<Rightarrow> (Inl e, (snd out)\<lparr>closes := closes (snd out) + 1\<rparr>))"

definition scrapeProperty ::
  "world \<Rightarrow> scraper_state \<Rightarrow> string \<Rightarrow> string \<Rightarrow> (error + property) \<times> scraper_state" where
  "scrapeProperty w st url platform =
     (let cacheKey = platform @ '':'' @ url;
          cachedData = propertyCache st cacheKey
      in if (case cachedData of None \<Rightarrow> False
             | Some entry \<Rightarrow> timestamp entry > now_check w - CACHE_TTL)
         then (Inr (data (the cachedData)), st)
         else
           (case session w of
              LaunchFails e \<Rightarrow> (Inl e, st\<lparr>launches := launches st + 1\<rparr>)
            | NavigationFails e \<Rightarrow>
                close_browser w (Inl e, st\<lparr>launches := launches st + 1\<rparr>)
            | Loaded pg \<Rightarrow>
                (case dispatch platform pg (now_iso w) of
                   Inl e \<Rightarrow> close_browser w (Inl e, st\<lparr>launches := launches st + 1\<rparr>)
                 | Inr propertyData \<Rightarrow>
                     close_browser w
                       (Inr propertyData,
                        st\<lparr>launches := launches st + 1,
                           propertyCache := (propertyCache st)
                             (cacheKey \<mapsto> \<lparr>timestamp = now_store w, data = propertyData\<rparr>)\<rparr>))))"

section \<open>The scoring service\<close>

text \<open>
  What \<open>generateAIAnalysis\<close> takes from its environment: the API key of the process
  environment, what the call of the completion service does (it rejects, or it returns
  the content of the first choice, \<open>None\<close> when there is none; a response without
  choices throws inside the same \<open>try\<close> and is a rejection), and the number formatting
  \<open>toFixed(2)\<close> of the runtime, which is defined on every number.
\<close>

datatype completion = Rejected error | Completed "string option"

record ai_env =
  OPENAI_API_KEY :: "string option"
  completion :: completion
  toFixed2 :: "jsnum \<Rightarrow> string"

record analysis_result =
  score :: jsnum
  analysis :: string

definition key_available :: "ai_env \<Rightarrow> bool" where
  "key_available env = (case OPENAI_API_KEY env of None \<Rightarrow> False | Some k \<Rightarrow> k \<noteq> [])"

text \<open>The body of the outer \<open>try\<close>: the heuristic score, then the call of the completion
  service inside its own \<open>try\<close>, then the templated answer.\<close>

definition analysis_body :: "ai_env \<Rightarrow> enriched \<Rightarrow> error + analysis_result" where
  "analysis_body env propertyData =
     (case financialMetrics propertyData of
        None \<Rightarrow> Inl (TypeError ''Cannot read properties of undefined (reading 'rentalYield')'')
      | Some fm \<Rightarrow>
     (case riskAssessment propertyData of
        None \<Rightarrow> Inl (TypeError ''Cannot read properties of undefined (reading 'score')'')
      | Some ra \<Rightarrow>
          let rentalYieldScore = js_min (js_mul (financial.rentalYield fm) (Fin 10)) (Fin 50);
              riskScore = js_min (js_mul (risk.score ra) (double_of 0.3)) (Fin 30);
              locationScore =
                js_min (js_mul (js_div (if js_gt (squareMeters propertyData) (Fin 70)
                                        then Fin 80 else Fin 60) (Fin 20)) (Fin 10))
                       (Fin 20);
              totalScore = js_round (js_add (js_add rentalYieldScore riskScore) locationScore);
              heuristic =
                \<lparr>score = totalScore,
                 analysis =
                   ''Property analysis complete. This property has a rental yield of '' @
                   toFixed2 env (financial.rentalYield fm) @ ''%, which is '' @
                   (if js_gt (financial.rentalYield fm) (Fin 5) then ''good'' else ''average'') @
                   '' for the Spanish market. The risk assessment is '' @
                   toLowerCase (overall ra) @
                   '', and the location scores are excellent.''\<rparr>
          in if key_available env
             then (case completion env of
                     Rejected e \<Rightarrow> Inr heuristic
                   | Completed content \<Rightarrow>
                       let aiResponse = (case content of None \<Rightarrow> [] | Some c \<Rightarrow> c)
                       in (case score_match aiResponse of
                             None \<Rightarrow> Inr heuristic
                           | Some ds \<Rightarrow>
                               if ds \<noteq> []
                               then Inr \<lparr>score = parseInt ds, analysis = aiResponse\<rparr>
                               else Inr heuristic))
             else Inr heuristic))"

definition fallback_analysis :: analysis_result where
  "fallback_analysis =
     \<lparr>score = Fin 70,
      analysis = ''Analysis could not be completed. Using estimated score based on available data.''\<rparr>"

text \<open>\<open>generateAIAnalysis\<close>: the outer \<open>catch\<close> answers every error of the body with the
  default.\<close>

definition generateAIAnalysis :: "ai_env \<Rightarrow> enriched \<Rightarrow> error + analysis_result" where
  "generateAIAnalysis env propertyData =
     (case analysis_body env propertyData of
        Inl e \<Rightarrow> Inr fallback_analysis
      | Inr result \<Rightarrow> Inr result)"

text \<open>The heuristic path: the key is missing, the call rejects, or no score is found in
  the answer.\<close>

definition heuristic_path :: "ai_env \<Rightarrow> bool" where
  "heuristic_path env =
     (if key_available env
      then (case completion env of
              Rejected e \<Rightarrow> True
            | Completed content \<Rightarrow>
                (case score_match (case content of None \<Rightarrow> [] | Some c \<Rightarrow> c) of
                   None \<Rightarrow> True
                 | Some ds \<Rightarrow> ds = []))
      else True)"

section \<open>Concrete inputs\<close>

text \<open>A listing with the numbers of the endpoint's mock data (price 450000, monthly rent
  1950, two bedrooms, two bathrooms); the location and the area are left open.\<close>

definition mock_listing :: "string \<Rightarrow> jsnum \<Rightarrow> property" where
  "mock_listing loc sqm =
     \<lparr>propertyAddress = ''Calle Gran Via 28, Madrid'',
      location = Some loc,
      purchasePrice = Number (Fin 450000),
      estimatedMonthlyRent = Number (Fin 1950),
      squareMeters = sqm,
      bedrooms = Fin 2,
      bathrooms = Fin 2,
      propertyType = ''Apartment'',
      features = None,
      source = \<lparr>source_platform = ''idealista'', source_url = ''https://example.com'',
                 source_scrapedAt = ''2024-04-01T00:00:00.000Z''\<rparr>\<rparr>"

text \<open>A page on which no selector matches anything.\<close>

definition blank_page :: page where
  "blank_page =
     \<lparr>page_url = ''https://example.com/listing'',
      querySelector = (\<lambda>sel. None),
      querySelectorAll = (\<lambda>sel. [])\<rparr>"

text \<open>A scraper that has not run yet, and a world in which the browser loads the blank
  page and closes without error; its clock readings are the arguments.\<close>

definition fresh_state :: scraper_state where
  "fresh_state = \<lparr>propertyCache = Map.empty, launches = 0, closes = 0\<rparr>"

definition blank_world :: "int \<Rightarrow> int \<Rightarrow> world" where
  "blank_world t_check t_store =
     \<lparr>now_check = t_check, now_store = t_store, now_iso = ''2024-04-01T00:00:00.000Z'',
      session = Loaded blank_page, close_error = None\<rparr>"

text \<open>An environment without an API key, and one whose completion service answers with
  the given text.\<close>

definition no_key_env :: ai_env where
  "no_key_env =
     \<lparr>OPENAI_API_KEY = None, completion = Rejected (Error ''no key''),
      toFixed2 = (\<lambda>n. ''5.20'')\<rparr>"

definition rejecting_env :: ai_env where
  "rejecting_env =
     \<lparr>OPENAI_API_KEY = Some ''sk-test'', completion = Rejected (Error ''timeout''),
      toFixed2 = (\<lambda>n. ''5.20'')\<rparr>"

section \<open>Properties of the arithmetic\<close>

text \<open>Rules that evaluate the rounding of a numeral.\<close>

lemma bitlen_numeral_simps:
  "bitlen 1 = 1"
  "bitlen (numeral (Num.Bit0 n)) = bitlen (numeral n) + 1"
  "bitlen (numeral (Num.Bit1 n)) = bitlen (numeral n) + 1"
  by (simp_all add: compute_bitlen [of "numeral (Num.Bit0 n)"]
      compute_bitlen [of "numeral (Num.Bit1 n)"] compute_bitlen [of 1])

lemmas double_eval =
  round_double_def round_magnitude_def expo_def round_even_def pow2_def Let_def
  signed_inf_def signed_zero_def double_of_def bitlen_numeral_simps

text \<open>Multiplication is commutative.\<close>

lemma js_mul_commute: "js_mul x y = js_mul y x"
  by (cases x; cases y) (simp_all add: mult.commute eq_commute [of "negative _" "negative _"])

text \<open>Rounding never carries a number over an integer that is a double: if the exact
  result is at most the integer \<open>c\<close>, so is the rounded one.\<close>

lemma round_even_le: "x \<le> of_int k \<Longrightarrow> round_even x \<le> k"
proof -
  assume x: "x \<le> of_int k"
  then have fl: "\<lfloor>x\<rfloor> \<le> k" by (simp add: floor_le_iff)
  show ?thesis
  proof (cases "\<lfloor>x\<rfloor> = k")
    case True
    then have "x - of_int \<lfloor>x\<rfloor> \<le> 0" using x by simp
    then show ?thesis using True by (simp add: round_even_def Let_def)
  next
    case False
    then have "\<lfloor>x\<rfloor> + 1 \<le> k" using fl by simp
    then show ?thesis using fl by (auto simp: round_even_def Let_def)
  qed
qed

lemma round_even_nonneg: "0 \<le> x \<Longrightarrow> 0 \<le> round_even x"
  by (auto simp: round_even_def Let_def)

lemma pow2_pos: "0 < pow2 k"
  by (simp add: pow2_def)

lemma expo_le:
  assumes "0 < a" and "a \<le> 2 ^ 52"
  shows "expo a \<le> 52"
proof (cases "1 \<le> a")
  case True
  then have pos: "0 < \<lfloor>a\<rfloor>" by simp
  have "\<lfloor>a\<rfloor> \<le> 2 ^ 52" using assms(2) by (simp add: floor_le_iff)
  moreover have "2 ^ nat (bitlen \<lfloor>a\<rfloor> - 1) \<le> \<lfloor>a\<rfloor>" using bitlen_bounds [OF pos] ..
  ultimately have "(2::int) ^ nat (bitlen \<lfloor>a\<rfloor> - 1) \<le> 2 ^ 52" by linarith
  then have "nat (bitlen \<lfloor>a\<rfloor> - 1) \<le> 52" by (rule power_le_imp_le_exp [rotated]) simp
  then show ?thesis using True by (simp add: expo_def)
next
  case False
  then show ?thesis using bitlen_nonneg [of "\<lceil>1 / a\<rceil> - 1"] by (simp add: expo_def)
qed

lemma round_magnitude_nonneg: "0 \<le> a \<Longrightarrow> 0 \<le> round_magnitude a"
  unfolding round_magnitude_def Let_def
  by (intro mult_nonneg_nonneg) (simp_all add: round_even_nonneg pow2_pos less_imp_le)

lemma round_magnitude_le:
  assumes "0 < x" and "x \<le> of_int c" and "c \<le> 2 ^ 52"
  shows "round_magnitude x \<le> of_int c"
proof -
  let ?e = "max (expo x) (- 1022)"
  let ?N = "(2::int) ^ nat (52 - ?e)"
  have "real_of_int c \<le> 2 ^ 52"
    using assms(3) by (metis of_int_le_iff of_int_numeral of_int_power)
  then have "x \<le> 2 ^ 52" using assms(2) by linarith
  then have e: "?e \<le> 52" using expo_le [OF assms(1)] by simp
  then have u: "pow2 (?e - 52) = 1 / of_int ?N"
    by (cases "?e = 52") (simp_all add: pow2_def)
  have "x / pow2 (?e - 52) = x * of_int ?N" by (simp add: u)
  also have "\<dots> \<le> of_int c * of_int ?N" using assms(2) by (simp add: mult_right_mono)
  finally have "x / pow2 (?e - 52) \<le> of_int (c * ?N)" by simp
  then have "round_even (x / pow2 (?e - 52)) \<le> c * ?N" by (rule round_even_le)
  then have "real_of_int (round_even (x / pow2 (?e - 52))) \<le> of_int c * of_int ?N"
    by (metis of_int_le_iff of_int_mult)
  then show ?thesis
    unfolding round_magnitude_def Let_def u by (simp add: field_simps)
qed

text \<open>An integer of at most 53 bits is a double: rounding leaves it as it is.\<close>

lemma round_even_int: "round_even (of_int k) = k"
  by (simp add: round_even_def Let_def)

lemma round_magnitude_int:
  assumes "0 < n" and "n \<le> 2 ^ 52"
  shows "round_magnitude (of_int n) = of_int n"
proof -
  let ?e = "max (expo (of_int n)) (- 1022)"
  let ?N = "(2::int) ^ nat (52 - ?e)"
  have "real_of_int n \<le> 2 ^ 52"
    using assms(2) by (metis of_int_le_iff of_int_numeral of_int_power)
  then have e: "?e \<le> 52" using expo_le [of "of_int n"] assms(1) by simp
  then have u: "pow2 (?e - 52) = 1 / of_int ?N"
    by (cases "?e = 52") (simp_all add: pow2_def)
  have "real_of_int n / pow2 (?e - 52) = of_int (n * ?N)" by (simp add: u)
  then have "round_even (real_of_int n / pow2 (?e - 52)) = n * ?N"
    by (simp only: round_even_int)
  then show ?thesis
    unfolding round_magnitude_def Let_def u by simp
qed

lemma round_double_int:
  assumes "0 \<le> n" and "n \<le> 2 ^ 52"
  shows "round_double (of_int n) = Fin (of_int n)"
proof (cases "n = 0")
  case True
  then show ?thesis by (simp add: round_double_def)
next
  case False
  then have pos: "0 < n" using assms(1) by simp
  have "real_of_int n \<le> 2 ^ 52"
    using assms(2) by (metis of_int_le_iff of_int_numeral of_int_power)
  also have "\<dots> < (2::real) ^ 1024" by (rule power_strict_increasing) simp_all
  finally have "real_of_int n < pow2 1024" by (simp add: pow2_def)
  then show ?thesis
    using pos round_magnitude_int [OF pos assms(2)] by (simp add: round_double_def)
qed

lemma round_double_neg_int:
  assumes "0 < n" and "n \<le> 2 ^ 52"
  shows "round_double (- of_int n) = Fin (- of_int n)"
proof -
  have "real_of_int n \<le> 2 ^ 52"
    using assms(2) by (metis of_int_le_iff of_int_numeral of_int_power)
  also have "\<dots> < (2::real) ^ 1024" by (rule power_strict_increasing) simp_all
  finally have "real_of_int n < pow2 1024" by (simp add: pow2_def)
  then show ?thesis
    using assms(1) round_magnitude_int [OF assms] by (simp add: round_double_def)
qed

lemma round_double_numeral:
  "numeral k \<le> (2::int) ^ 52 \<Longrightarrow> round_double (numeral k) = Fin (numeral k)"
  "numeral k \<le> (2::int) ^ 52 \<Longrightarrow> round_double (- numeral k) = Fin (- numeral k)"
  using round_double_int [of "numeral k"] round_double_neg_int [of "numeral k"] by simp_all

lemma round_double_le:
  assumes "x \<le> of_int c" and "0 \<le> c" and "c \<le> 2 ^ 52"
  shows "\<not> js_lt (Fin (of_int c)) (round_double x)"
proof -
  have big: "real_of_int c < pow2 1024"
  proof -
    have "real_of_int c \<le> 2 ^ 52"
      using assms(3) by (metis of_int_le_iff of_int_numeral of_int_power)
    also have "\<dots> < (2::real) ^ 1024" by (rule power_strict_increasing) simp_all
    finally show ?thesis by (simp add: pow2_def)
  qed
  consider "x = 0" | "x < 0" | "0 < x" by linarith
  then show ?thesis
  proof cases
    case 1
    then show ?thesis using assms(2) by (simp add: round_double_def)
  next
    case 2
    have "0 \<le> round_magnitude \<bar>x\<bar>" by (rule round_magnitude_nonneg) simp
    then show ?thesis using 2 assms(2)
      by (simp add: round_double_def signed_inf_def signed_zero_def)
  next
    case 3
    have "round_magnitude \<bar>x\<bar> \<le> of_int c"
      using round_magnitude_le [OF 3 assms(1) assms(3)] 3 by simp
    then show ?thesis using 3 big assms(2)
      by (simp add: round_double_def signed_inf_def signed_zero_def)
  qed
qed

lemma js_min_cap: "\<not> js_lt (Fin c) (js_min x (Fin c))"
  by (cases x) auto

lemma js_add_at_most:
  assumes "\<not> js_lt (Fin (of_int a)) X" and "\<not> js_lt (Fin (of_int b)) Y"
    and "0 \<le> a + b" and "a + b \<le> 2 ^ 52"
  shows "\<not> js_lt (Fin (of_int (a + b))) (js_add X Y)"
proof -
  have fin: "\<not> js_lt (Fin (of_int (a + b))) (round_double (x + y))"
    if "x \<le> of_int a" "y \<le> of_int b" for x y
    by (rule round_double_le) (use that assms(3,4) in simp_all)
  show ?thesis
  proof (cases X)
    case (Fin x)
    then show ?thesis using assms fin [of x] fin [of x 0]
      by (cases Y) (auto simp: signed_zero_def)
  next
    case NegZero
    then show ?thesis using assms fin [of 0] fin [of 0 0]
      by (cases Y) (auto simp: signed_zero_def)
  qed (use assms in \<open>cases Y; simp\<close>)+
qed

lemma js_round_at_most:
  assumes "\<not> js_lt (Fin (of_int c)) X"
  shows "\<not> js_lt (Fin (of_int c)) (js_round X)"
proof (cases X)
  case (Fin x)
  then have "x \<le> of_int c" using assms by simp
  then have "\<lfloor>x + 1 / 2\<rfloor> \<le> c" by (simp add: floor_le_iff)
  then have "real_of_int \<lfloor>x + 1 / 2\<rfloor> \<le> of_int c" by simp
  then show ?thesis using Fin by (auto simp: signed_zero_def not_less)
qed (use assms in simp_all)

section \<open>Properties of the string library\<close>

text \<open>\<open>includes\<close> decides the substring relation.\<close>

lemma startsWith_prefix: "startsWith s t \<longleftrightarrow> prefix t s"
  unfolding startsWith_def
  by (metis append_eq_conv_conj prefix_def append_take_drop_id)

lemma includes_str_sublist: "includes_str s t \<longleftrightarrow> sublist t s"
  by (induction s) (auto simp: startsWith_prefix sublist_Cons_right)

section \<open>Properties of the risk assessment\<close>

text \<open>\<open>assessRisk\<close> returns exactly on the records that have a location, and looks at
  four fields only.\<close>

lemma assessRisk_returns:
  "property.location p = Some loc \<Longrightarrow> \<exists>ra. assessRisk p = Inr ra"
  unfolding assessRisk_def Let_def by simp

lemma assessRisk_throws:
  "property.location p = None \<Longrightarrow>
   assessRisk p = Inl (TypeError ''Cannot read properties of undefined (reading 'toLowerCase')'')"
  unfolding assessRisk_def by simp

lemma assessRisk_depends:
  assumes "property.location q = property.location p"
    and "property.purchasePrice q = property.purchasePrice p"
    and "property.estimatedMonthlyRent q = property.estimatedMonthlyRent p"
    and "property.propertyType q = property.propertyType p"
  shows "assessRisk q = assessRisk p"
  unfolding assessRisk_def assms ..

text \<open>The risk assessment of the mock listing in Madrid and in Valencia: the yield is
  the double nearest to 5.2.\<close>

lemma mock_risk:
  "assessRisk (mock_listing ''Madrid'' sqm) =
     Inr \<lparr>overall = ''Very Low'', score = Fin 90,
          factors = \<lparr>factors.location = ''Madrid'', factors.propertyType = ''Apartment'',
                      factors.rentalYield = Fin (5854679515581645 / 1125899906842624)\<rparr>\<rparr>"
  "assessRisk (mock_listing ''Valencia'' sqm) =
     Inr \<lparr>overall = ''Low'', score = Fin 80,
          factors = \<lparr>factors.location = ''Valencia'', factors.propertyType = ''Apartment'',
                      factors.rentalYield = Fin (5854679515581645 / 1125899906842624)\<rparr>\<rparr>"
  by (simp_all add: assessRisk_def mock_listing_def Let_def toLowerCase_def lower_char_def
      startsWith_def js_gt_def js_sub_def double_eval)

text \<open>
  Claim C6. For every property record (with a location), the risk score is 70, plus 10
  if the location contains \<open>madrid\<close> or \<open>barcelona\<close> as a substring in any letter case,
  plus 10 if the rental yield (monthly rent times 12, divided by the price, times 100,
  in the arithmetic of doubles) is greater than 5, minus 10 if it is less than 3; the
  category is \<open>Very Low\<close> from 85 up, \<open>Low\<close> from 70, \<open>Medium\<close> from 50, \<open>High\<close> from 30
  and \<open>Very High\<close> below.
\<close>

theorem assessRisk_rule:
  assumes "property.location p = Some loc"
  shows "\<exists>r s. assessRisk p = Inr r \<and> risk.score r = Fin s \<and>
     s = 70
        + (if sublist ''madrid'' (toLowerCase loc) \<or> sublist ''barcelona'' (toLowerCase loc)
           then 10 else 0)
        + (if js_gt (js_mul (js_div (js_mul (to_number (property.estimatedMonthlyRent p)) (Fin 12))
                                    (to_number (property.purchasePrice p))) (Fin 100)) (Fin 5)
           then 10
           else if js_lt (js_mul (js_div (js_mul (to_number (property.estimatedMonthlyRent p)) (Fin 12))
                                         (to_number (property.purchasePrice p))) (Fin 100)) (Fin 3)
           then - 10
           else 0) \<and>
     overall r = (if 85 \<le> s then ''Very Low''
                  else if 70 \<le> s then ''Low''
                  else if 50 \<le> s then ''Medium''
                  else if 30 \<le> s then ''High''
                  else ''Very High'')"
  using assms unfolding assessRisk_def Let_def
  by (simp add: includes_str_sublist js_sub_def round_double_numeral)

text \<open>The rule at the mock listing in Madrid: yield 5.2, score 90, category
  \<open>Very Low\<close>.\<close>

theorem assessRisk_rule_witness:
  "\<exists>r. assessRisk (mock_listing ''Madrid'' (Fin 90)) = Inr r \<and> risk.score r = Fin 90 \<and>
       overall r = ''Very Low''"
proof -
  have h: "property.location (mock_listing ''Madrid'' (Fin 90)) = Some ''Madrid''"
    by (simp add: mock_listing_def)
  show ?thesis
    using assessRisk_rule [OF h] by (simp add: mock_risk)
qed

text \<open>
  Claim C10. For every property record (with a location), the risk score is one of 60,
  70, 80 and 90, so the category is \<open>Medium\<close>, \<open>Low\<close> or \<open>Very Low\<close>; \<open>High\<close> and
  \<open>Very High\<close> are never produced.
\<close>

theorem assessRisk_range:
  assumes "property.location p = Some loc"
  shows "\<exists>r. assessRisk p = Inr r \<and>
     risk.score r \<in> {Fin 60, Fin 70, Fin 80, Fin 90} \<and>
     overall r \<in> {''Medium'', ''Low'', ''Very Low''} \<and>
     overall r \<noteq> ''High'' \<and> overall r \<noteq> ''Very High''"
  using assms unfolding assessRisk_def Let_def
  by (simp add: js_sub_def round_double_numeral)

text \<open>The range at the mock listing in Valencia: score 80, category \<open>Low\<close>.\<close>

theorem assessRisk_range_witness:
  "\<exists>r. assessRisk (mock_listing ''Valencia'' (Fin 90)) = Inr r \<and> risk.score r = Fin 80 \<and>
       risk.score r \<in> {Fin 60, Fin 70, Fin 80, Fin 90} \<and>
       overall r \<in> {''Medium'', ''Low'', ''Very Low''}"
proof -
  have h: "property.location (mock_listing ''Valencia'' (Fin 90)) = Some ''Valencia''"
    by (simp add: mock_listing_def)
  show ?thesis
    using assessRisk_range [OF h] by (simp add: mock_risk)
qed

section \<open>Properties of the investment metrics\<close>

text \<open>
  Claim C1. For every property record with a positive price and a positive monthly
  rent, \<open>calculateInvestmentMetrics\<close> computes, in the arithmetic of doubles, the annual rental income as twelve monthly rents, the property tax,
  insurance and maintenance as 0.005, 0.002 and 0.01 times the price, the management
  fees as 0.08 times the annual rental income, the total expenses as their sum, the
  net operating income as the income less the total expenses, and the cap rate as the
  net operating income divided by the price, times 100. For the price 450000, the rent
  1950 and 90 square meters this gives exactly 23400, 2250, 900, 4500, 1872, total
  expenses 9522 and net operating income 13878, and for the cap rate and the rental
  yield the doubles nearest to 3.084 and 5.2.
\<close>

theorem calculateInvestmentMetrics_formulas:
  assumes "property.location p = Some loc"
    and "property.purchasePrice p = Number price" and "js_gt price (Fin 0)"
    and "property.estimatedMonthlyRent p = Number rent" and "js_gt rent (Fin 0)"
  shows "\<exists>r fm. calculateInvestmentMetrics p = Inr r \<and> financialMetrics r = Some fm \<and>
     annualRentalIncome fm = js_mul rent (Fin 12) \<and>
     propertyTax (expenses fm) = js_mul (double_of 0.005) price \<and>
     insurance (expenses fm) = js_mul (double_of 0.002) price \<and>
     maintenance (expenses fm) = js_mul (double_of 0.01) price \<and>
     managementFees (expenses fm) = js_mul (double_of 0.08) (annualRentalIncome fm) \<and>
     totalExpenses fm =
       js_add (js_add (js_add (propertyTax (expenses fm)) (insurance (expenses fm)))
                      (maintenance (expenses fm)))
              (managementFees (expenses fm)) \<and>
     netOperatingIncome fm = js_sub (annualRentalIncome fm) (totalExpenses fm) \<and>
     capRate fm = js_mul (js_div (netOperatingIncome fm) price) (Fin 100) \<and>
     (price = Fin 450000 \<and> rent = Fin 1950 \<and> property.squareMeters p = Fin 90 \<longrightarrow>
        annualRentalIncome fm = Fin 23400 \<and>
        propertyTax (expenses fm) = Fin 2250 \<and>
        insurance (expenses fm) = Fin 900 \<and>
        maintenance (expenses fm) = Fin 4500 \<and>
        managementFees (expenses fm) = Fin 1872 \<and>
        totalExpenses fm = Fin 9522 \<and>
        netOperatingIncome fm = Fin 13878 \<and>
        capRate fm = Fin (6944550625405305 / 2251799813685248) \<and>
        \<bar>6944550625405305 / 2251799813685248 - 3.084\<bar> < (1 / 10 ^ 15 :: real) \<and>
        financial.rentalYield fm = Fin (5854679515581645 / 1125899906842624) \<and>
        \<bar>5854679515581645 / 1125899906842624 - 5.2\<bar> < (1 / 10 ^ 15 :: real))"
proof -
  obtain ra where ra: "assessRisk p = Inr ra"
    using assessRisk_returns [OF assms(1)] by blast
  have "\<exists>r fm. calculateInvestmentMetrics p = Inr r \<and> financialMetrics r = Some fm \<and>
     annualRentalIncome fm = js_mul rent (Fin 12) \<and>
     propertyTax (expenses fm) = js_mul price (double_of 0.005) \<and>
     insurance (expenses fm) = js_mul price (double_of 0.002) \<and>
     maintenance (expenses fm) = js_mul price (double_of 0.01) \<and>
     managementFees (expenses fm) = js_mul (annualRentalIncome fm) (double_of 0.08) \<and>
     totalExpenses fm =
       js_add (js_add (js_add (propertyTax (expenses fm)) (insurance (expenses fm)))
                      (maintenance (expenses fm)))
              (managementFees (expenses fm)) \<and>
     netOperatingIncome fm = js_sub (annualRentalIncome fm) (totalExpenses fm) \<and>
     capRate fm = js_mul (js_div (netOperatingIncome fm) price) (Fin 100) \<and>
     financial.rentalYield fm = js_mul (js_div (annualRentalIncome fm) price) (Fin 100)"
    using assms(2,4) ra unfolding calculateInvestmentMetrics_def Let_def
    by (simp add: property.defs)
  then obtain r fm where r: "calculateInvestmentMetrics p = Inr r"
    and fm: "financialMetrics r = Some fm"
    and income: "annualRentalIncome fm = js_mul rent (Fin 12)"
    and tax: "propertyTax (expenses fm) = js_mul price (double_of 0.005)"
    and ins: "insurance (expenses fm) = js_mul price (double_of 0.002)"
    and mnt: "maintenance (expenses fm) = js_mul price (double_of 0.01)"
    and fees: "managementFees (expenses fm) = js_mul (annualRentalIncome fm) (double_of 0.08)"
    and total: "totalExpenses fm =
       js_add (js_add (js_add (propertyTax (expenses fm)) (insurance (expenses fm)))
                      (maintenance (expenses fm)))
              (managementFees (expenses fm))"
    and noi: "netOperatingIncome fm = js_sub (annualRentalIncome fm) (totalExpenses fm)"
    and cap: "capRate fm = js_mul (js_div (netOperatingIncome fm) price) (Fin 100)"
    and yield: "financial.rentalYield fm = js_mul (js_div (annualRentalIncome fm) price) (Fin 100)"
    by blast
  have example:
    "annualRentalIncome fm = Fin 23400 \<and>
     propertyTax (expenses fm) = Fin 2250 \<and>
     insurance (expenses fm) = Fin 900 \<and>
     maintenance (expenses fm) = Fin 4500 \<and>
     managementFees (expenses fm) = Fin 1872 \<and>
     totalExpenses fm = Fin 9522 \<and>
     netOperatingIncome fm = Fin 13878 \<and>
     capRate fm = Fin (6944550625405305 / 2251799813685248) \<and>
     \<bar>6944550625405305 / 2251799813685248 - 3.084\<bar> < (1 / 10 ^ 15 :: real) \<and>
     financial.rentalYield fm = Fin (5854679515581645 / 1125899906842624) \<and>
     \<bar>5854679515581645 / 1125899906842624 - 5.2\<bar> < (1 / 10 ^ 15 :: real)"
    if "price = Fin 450000 \<and> rent = Fin 1950 \<and> property.squareMeters p = Fin 90"
  proof -
    have p: "price = Fin 450000" and m: "rent = Fin 1950" using that by simp_all
    have v1: "annualRentalIncome fm = Fin 23400"
      unfolding income m by (simp add: double_eval)
    have v2: "propertyTax (expenses fm) = Fin 2250"
      unfolding tax p by (simp add: double_eval)
    have v3: "insurance (expenses fm) = Fin 900"
      unfolding ins p by (simp add: double_eval)
    have v4: "maintenance (expenses fm) = Fin 4500"
      unfolding mnt p by (simp add: double_eval)
    have v5: "managementFees (expenses fm) = Fin 1872"
      unfolding fees v1 by (simp add: double_eval)
    have v6: "totalExpenses fm = Fin 9522"
      unfolding total v2 v3 v4 v5 by (simp add: double_eval)
    have v7: "netOperatingIncome fm = Fin 13878"
      unfolding noi v1 v6 by (simp add: js_sub_def double_eval)
    have v8: "capRate fm = Fin (6944550625405305 / 2251799813685248)"
      unfolding cap v7 p by (simp add: double_eval)
    have v9: "financial.rentalYield fm = Fin (5854679515581645 / 1125899906842624)"
      unfolding yield v1 p by (simp add: double_eval)
    show ?thesis using v1 v2 v3 v4 v5 v6 v7 v8 v9 by simp
  qed
  have tax': "propertyTax (expenses fm) = js_mul (double_of 0.005) price"
    by (metis tax js_mul_commute)
  have ins': "insurance (expenses fm) = js_mul (double_of 0.002) price"
    by (metis ins js_mul_commute)
  have mnt': "maintenance (expenses fm) = js_mul (double_of 0.01) price"
    by (metis mnt js_mul_commute)
  have fees': "managementFees (expenses fm) = js_mul (double_of 0.08) (annualRentalIncome fm)"
    by (metis fees js_mul_commute)
  show ?thesis
    using r fm income tax' ins' mnt' fees' total noi cap example by blast
qed

text \<open>The formulas at the mock listing.\<close>

theorem calculateInvestmentMetrics_formulas_witness:
  "\<exists>r fm. calculateInvestmentMetrics (mock_listing ''Madrid'' (Fin 90)) = Inr r \<and>
      financialMetrics r = Some fm \<and>
      annualRentalIncome fm = Fin 23400 \<and> totalExpenses fm = Fin 9522 \<and>
      netOperatingIncome fm = Fin 13878 \<and>
      capRate fm = Fin (6944550625405305 / 2251799813685248) \<and>
      financial.rentalYield fm = Fin (5854679515581645 / 1125899906842624)"
proof -
  have h: "property.location (mock_listing ''Madrid'' (Fin 90)) = Some ''Madrid''"
    "property.purchasePrice (mock_listing ''Madrid'' (Fin 90)) = Number (Fin 450000)"
    "js_gt (Fin 450000) (Fin 0)"
    "property.estimatedMonthlyRent (mock_listing ''Madrid'' (Fin 90)) = Number (Fin 1950)"
    "js_gt (Fin 1950) (Fin 0)"
    by (simp_all add: mock_listing_def js_gt_def)
  have s: "property.squareMeters (mock_listing ''Madrid'' (Fin 90)) = Fin 90"
    by (simp add: mock_listing_def)
  show ?thesis
    using calculateInvestmentMetrics_formulas [OF h] s by auto
qed

text \<open>
  Claim C8. \<open>calculateInvestmentMetrics\<close> is a function of its argument alone, the
  record it returns carries every field of the input unchanged, and the metrics and the
  risk assessment depend on the location, the price, the rent, the area and the
  property type only: two records that agree on these get identical metrics.
\<close>

theorem calculateInvestmentMetrics_pure:
  assumes "property.location p = Some loc"
  shows "\<exists>r. calculateInvestmentMetrics p = Inr r \<and> property.truncate r = p \<and>
     (\<forall>q. property.location q = property.location p \<and>
          property.purchasePrice q = property.purchasePrice p \<and>
          property.estimatedMonthlyRent q = property.estimatedMonthlyRent p \<and>
          property.squareMeters q = property.squareMeters p \<and>
          property.propertyType q = property.propertyType p \<longrightarrow>
          (\<exists>r'. calculateInvestmentMetrics q = Inr r' \<and>
                financialMetrics r' = financialMetrics r \<and>
                riskAssessment r' = riskAssessment r))"
proof -
  obtain ra where ra: "assessRisk p = Inr ra"
    using assessRisk_returns [OF assms] by blast
  have "assessRisk q = Inr ra"
    if "property.location q = property.location p"
      "property.purchasePrice q = property.purchasePrice p"
      "property.estimatedMonthlyRent q = property.estimatedMonthlyRent p"
      "property.propertyType q = property.propertyType p" for q :: property
    using assessRisk_depends [OF that] ra by simp
  then show ?thesis
    using ra unfolding calculateInvestmentMetrics_def Let_def
    by (simp add: property.defs)
qed

text \<open>Purity at the mock listing, compared with the same listing with one more
  bedroom.\<close>

theorem calculateInvestmentMetrics_pure_witness:
  "\<exists>r. calculateInvestmentMetrics (mock_listing ''Madrid'' (Fin 90)) = Inr r \<and>
       property.truncate r = mock_listing ''Madrid'' (Fin 90) \<and>
       (\<exists>r'. calculateInvestmentMetrics
               ((mock_listing ''Madrid'' (Fin 90))\<lparr>bedrooms := Fin 3\<rparr>) = Inr r' \<and>
             financialMetrics r' = financialMetrics r \<and>
             riskAssessment r' = riskAssessment r)"
proof -
  have h: "property.location (mock_listing ''Madrid'' (Fin 90)) = Some ''Madrid''"
    by (simp add: mock_listing_def)
  show ?thesis
    using calculateInvestmentMetrics_pure [OF h] by fastforce
qed

text \<open>
  Claim C4, as stated, fails: the claim says that the metrics operation fails with an
  error when the area is not positive. On the mock listing with an area of 0 square
  meters \<open>calculateInvestmentMetrics\<close> returns a record, and its price per square meter
  is the value \<open>+Infinity\<close>.
\<close>

theorem calculateInvestmentMetrics_zero_area:
  "\<not> isl (calculateInvestmentMetrics (mock_listing ''Madrid'' (Fin 0))) \<and>
   map_option pricePerSquareMeter
     (financialMetrics (projr (calculateInvestmentMetrics (mock_listing ''Madrid'' (Fin 0)))))
     = Some PInf"
proof -
  obtain ra where ra: "assessRisk (mock_listing ''Madrid'' (Fin 0)) = Inr ra"
    using assessRisk_returns [of "mock_listing ''Madrid'' (Fin 0)" "''Madrid''"]
    by (auto simp: mock_listing_def)
  show ?thesis
    unfolding calculateInvestmentMetrics_def Let_def ra
    by (simp add: mock_listing_def signed_inf_def property.defs)
qed

text \<open>
  Claim C4, amended. \<open>calculateInvestmentMetrics\<close> validates none of the price, the
  rent and the area. It fails only on a record without a location, with the
  \<open>TypeError\<close> of \<open>assessRisk\<close>; on every record with a location it returns, whatever
  the three numbers are, and the price per square meter is the IEEE quotient of price
  and area. For a positive finite price that quotient is \<open>+Infinity\<close> when the area is
  the positive zero and \<open>-Infinity\<close> when it is the negative zero.
\<close>

theorem calculateInvestmentMetrics_no_validation:
  "(property.location p = None \<longrightarrow>
      calculateInvestmentMetrics p =
        Inl (TypeError ''Cannot read properties of undefined (reading 'toLowerCase')'')) \<and>
   (\<forall>loc. property.location p = Some loc \<longrightarrow>
      (\<exists>r fm. calculateInvestmentMetrics p = Inr r \<and> financialMetrics r = Some fm \<and>
         pricePerSquareMeter fm =
           js_div (to_number (property.purchasePrice p)) (property.squareMeters p) \<and>
         (\<forall>a. property.purchasePrice p = Number (Fin a) \<and> 0 < a \<and>
              property.squareMeters p = Fin 0 \<longrightarrow> pricePerSquareMeter fm = PInf) \<and>
         (\<forall>a. property.purchasePrice p = Number (Fin a) \<and> 0 < a \<and>
              property.squareMeters p = NegZero \<longrightarrow> pricePerSquareMeter fm = NInf)))"
proof (intro conjI impI allI)
  assume "property.location p = None"
  then have "assessRisk p =
      Inl (TypeError ''Cannot read properties of undefined (reading 'toLowerCase')'')"
    by (rule assessRisk_throws)
  then show "calculateInvestmentMetrics p =
      Inl (TypeError ''Cannot read properties of undefined (reading 'toLowerCase')'')"
    unfolding calculateInvestmentMetrics_def Let_def by simp
next
  fix loc assume "property.location p = Some loc"
  then obtain ra where ra: "assessRisk p = Inr ra" using assessRisk_returns by blast
  show "\<exists>r fm. calculateInvestmentMetrics p = Inr r \<and> financialMetrics r = Some fm \<and>
         pricePerSquareMeter fm =
           js_div (to_number (property.purchasePrice p)) (property.squareMeters p) \<and>
         (\<forall>a. property.purchasePrice p = Number (Fin a) \<and> 0 < a \<and>
              property.squareMeters p = Fin 0 \<longrightarrow> pricePerSquareMeter fm = PInf) \<and>
         (\<forall>a. property.purchasePrice p = Number (Fin a) \<and> 0 < a \<and>
              property.squareMeters p = NegZero \<longrightarrow> pricePerSquareMeter fm = NInf)"
    unfolding calculateInvestmentMetrics_def Let_def ra
    by (auto simp: signed_inf_def property.defs)
qed

text \<open>The amended claim at the mock listing with area 0 and a negative rent.\<close>

theorem calculateInvestmentMetrics_no_validation_witness:
  "\<exists>r fm. calculateInvestmentMetrics
       ((mock_listing ''Madrid'' (Fin 0))\<lparr>estimatedMonthlyRent := Number (Fin (- 5))\<rparr>) = Inr r \<and>
     financialMetrics r = Some fm \<and> pricePerSquareMeter fm = PInf"
  using calculateInvestmentMetrics_no_validation
    [of "(mock_listing ''Madrid'' (Fin 0))\<lparr>estimatedMonthlyRent := Number (Fin (- 5))\<rparr>"]
  by (fastforce simp: mock_listing_def)

section \<open>Properties of the parsers\<close>

text \<open>The three parsers on the page on which no selector matches.\<close>

lemma trim_empty: "trim [] = []"
  by (simp add: trim_def trimStart_def trimEnd_def)

lemma trim_comma_space: "trim '', '' = '',''"
  by (simp add: trim_def trimStart_def trimEnd_def white_space_def startsWith_def)

lemma parseIdealista_blank:
  "parseIdealista blank_page now =
     Inr \<lparr>propertyAddress = '','', location = Some [], purchasePrice = Null,
          estimatedMonthlyRent = Undefined, squareMeters = Fin 0, bedrooms = Fin 0,
          bathrooms = Fin 0, propertyType = ''Apartment'', features = Some [],
          source = \<lparr>source_platform = ''idealista'',
                     source_url = ''https://example.com/listing'',
                     source_scrapedAt = now\<rparr>\<rparr>"
  by (simp add: parseIdealista_def blank_page_def trimmed_text_def extract_price_def
      extract_number_def estimate_rent_def or_zero_def or_apartment_def trim_empty trim_comma_space)

lemma parseFotocasa_blank:
  "parseFotocasa blank_page now =
     Inr \<lparr>propertyAddress = [], location = Some [], purchasePrice = Null,
          estimatedMonthlyRent = Undefined, squareMeters = Fin 0, bedrooms = Fin 0,
          bathrooms = Fin 0, propertyType = ''Apartment'', features = None,
          source = \<lparr>source_platform = ''fotocasa'',
                     source_url = ''https://example.com/listing'',
                     source_scrapedAt = now\<rparr>\<rparr>"
  by (simp add: parseFotocasa_def blank_page_def trimmed_text_def extract_price_def
      no_details_def estimate_rent_def or_zero_def or_apartment_def)

lemma parseHabitaclia_blank:
  "parseHabitaclia blank_page now =
     Inr \<lparr>propertyAddress = [], location = Some [], purchasePrice = Null,
          estimatedMonthlyRent = Undefined, squareMeters = Fin 0, bedrooms = Fin 0,
          bathrooms = Fin 0, propertyType = ''Apartment'', features = None,
          source = \<lparr>source_platform = ''habitaclia'',
                     source_url = ''https://example.com/listing'',
                     source_scrapedAt = now\<rparr>\<rparr>"
  by (simp add: parseHabitaclia_def blank_page_def trimmed_text_def extract_price_def
      extract_number_def estimate_rent_def or_zero_def or_apartment_def)

text \<open>
  Claim C9. On a page on which every selector is missing each of the three parsers
  succeeds, with 0 square meters, 0 bedrooms, 0 bathrooms and the property type
  \<open>Apartment\<close>. The record of \<open>parseIdealista\<close> carries the empty sequence of features;
  the records of \<open>parseFotocasa\<close> and \<open>parseHabitaclia\<close> carry no features at all,
  where the claim says that every platform returns a sequence.
\<close>

theorem parsers_on_blank_page:
  "map_sum id (\<lambda>r. (squareMeters r, bedrooms r, bathrooms r, property.propertyType r, features r))
      (parseIdealista blank_page now) = Inr (Fin 0, Fin 0, Fin 0, ''Apartment'', Some []) \<and>
   map_sum id (\<lambda>r. (squareMeters r, bedrooms r, bathrooms r, property.propertyType r, features r))
      (parseFotocasa blank_page now) = Inr (Fin 0, Fin 0, Fin 0, ''Apartment'', None) \<and>
   map_sum id (\<lambda>r. (squareMeters r, bedrooms r, bathrooms r, property.propertyType r, features r))
      (parseHabitaclia blank_page now) = Inr (Fin 0, Fin 0, Fin 0, ''Apartment'', None)"
  by (simp add: parseIdealista_blank parseFotocasa_blank parseHabitaclia_blank)

section \<open>Properties of the scrape orchestrator\<close>

text \<open>A cache hit returns the stored record and leaves the state as it is; a miss runs
  the browser.\<close>

lemma scrapeProperty_hit:
  assumes "propertyCache st (platform @ '':'' @ url) = Some entry"
    and "now_check w - timestamp entry < 3600000"
  shows "scrapeProperty w st url platform = (Inr (data entry), st)"
  using assms unfolding scrapeProperty_def Let_def CACHE_TTL_def by simp

lemma close_browser_state:
  "snd (close_browser w out) = (snd out)\<lparr>closes := closes (snd out) + 1\<rparr>"
  unfolding close_browser_def by (simp split: option.splits)

lemma close_browser_success:
  "fst (close_browser w out) = Inr d \<Longrightarrow> fst out = Inr d"
  unfolding close_browser_def by (simp split: option.splits)

lemma scrapeProperty_miss:
  assumes "case propertyCache st (platform @ '':'' @ url) of
             None \<Rightarrow> True | Some entry \<Rightarrow> 3600000 \<le> now_check w - timestamp entry"
  shows "scrapeProperty w st url platform =
     (case session w of
        LaunchFails e \<Rightarrow> (Inl e, st\<lparr>launches := launches st + 1\<rparr>)
      | NavigationFails e \<Rightarrow> close_browser w (Inl e, st\<lparr>launches := launches st + 1\<rparr>)
      | Loaded pg \<Rightarrow>
          (case dispatch platform pg (now_iso w) of
             Inl e \<Rightarrow> close_browser w (Inl e, st\<lparr>launches := launches st + 1\<rparr>)
           | Inr propertyData \<Rightarrow>
               close_browser w
                 (Inr propertyData,
                  st\<lparr>launches := launches st + 1,
                     propertyCache := (propertyCache st)
                       (platform @ '':'' @ url \<mapsto>
                          \<lparr>timestamp = now_store w, data = propertyData\<rparr>)\<rparr>)))"
  using assms unfolding scrapeProperty_def Let_def CACHE_TTL_def
  by (simp split: option.splits)

lemma scrapeProperty_miss_launches:
  assumes "case propertyCache st (platform @ '':'' @ url) of
             None \<Rightarrow> True | Some entry \<Rightarrow> 3600000 \<le> now_check w - timestamp entry"
  shows "launches (snd (scrapeProperty w st url platform)) = launches st + 1"
  unfolding scrapeProperty_miss [OF assms]
  by (simp add: close_browser_state split: session.splits sum.splits)

lemma scrapeProperty_miss_success:
  assumes "case propertyCache st (platform @ '':'' @ url) of
             None \<Rightarrow> True | Some entry \<Rightarrow> 3600000 \<le> now_check w - timestamp entry"
    and "scrapeProperty w st url platform = (Inr d, st1)"
  shows "propertyCache st1 (platform @ '':'' @ url) = Some \<lparr>timestamp = now_store w, data = d\<rparr>"
proof -
  have r: "fst (scrapeProperty w st url platform) = Inr d"
    and s: "snd (scrapeProperty w st url platform) = st1"
    using assms(2) by simp_all
  show ?thesis
  proof (cases "session w")
    case (LaunchFails e)
    then show ?thesis using r unfolding scrapeProperty_miss [OF assms(1)] by simp
  next
    case (NavigationFails e)
    then show ?thesis using r unfolding scrapeProperty_miss [OF assms(1)]
      by (auto dest: close_browser_success)
  next
    case (Loaded pg)
    show ?thesis
    proof (cases "dispatch platform pg (now_iso w)")
      case (Inl e)
      then show ?thesis using r Loaded unfolding scrapeProperty_miss [OF assms(1)]
        by (auto dest: close_browser_success)
    next
      case (Inr pd)
      then have "pd = d" using r Loaded unfolding scrapeProperty_miss [OF assms(1)]
        by (auto dest: close_browser_success)
      then show ?thesis using s Loaded Inr unfolding scrapeProperty_miss [OF assms(1)]
        by (auto simp: close_browser_state)
    qed
  qed
qed

lemma dispatch_idealista_blank:
  "dispatch ''idealista'' blank_page now = parseIdealista blank_page now"
  by (simp add: dispatch_def toLowerCase_def lower_char_def)

lemma dispatch_unsupported:
  assumes "toLowerCase platform \<notin> {''idealista'', ''fotocasa'', ''habitaclia''}"
  shows "dispatch platform pg now = Inl (Error (''Unsupported platform: '' @ platform))"
  using assms unfolding dispatch_def by simp

text \<open>
  Claim C3. For every url and platform, \<open>scrapeProperty\<close> looks up the key
  \<open>platform:url\<close>. If the cache has an entry under it whose time stamp is less than
  3600000 ms before the current time, the call returns the data of the entry and
  changes nothing: no browser is launched and the entry keeps its time stamp.
  Otherwise the browser is launched, and if the call succeeds the result is stored
  under the key with the time of storing. A second call for the same url and platform
  less than 3600000 ms after that time returns the same record and the same state; a
  call at or after 3600000 ms launches the browser again.
\<close>

theorem scrapeProperty_cache:
  "(\<forall>entry. propertyCache st (platform @ '':'' @ url) = Some entry \<and>
        now_check w - timestamp entry < 3600000 \<longrightarrow>
        scrapeProperty w st url platform = (Inr (data entry), st)) \<and>
   ((case propertyCache st (platform @ '':'' @ url) of
       None \<Rightarrow> True | Some entry \<Rightarrow> 3600000 \<le> now_check w - timestamp entry) \<longrightarrow>
      launches (snd (scrapeProperty w st url platform)) = launches st + 1 \<and>
      (\<forall>d st1. scrapeProperty w st url platform = (Inr d, st1) \<longrightarrow>
         propertyCache st1 (platform @ '':'' @ url) =
           Some \<lparr>timestamp = now_store w, data = d\<rparr> \<and>
         (\<forall>w2. now_check w2 - now_store w < 3600000 \<longrightarrow>
            scrapeProperty w2 st1 url platform = (Inr d, st1)) \<and>
         (\<forall>w2. 3600000 \<le> now_check w2 - now_store w \<longrightarrow>
            launches (snd (scrapeProperty w2 st1 url platform)) = launches st1 + 1)))"
proof (intro conjI impI allI)
  fix entry
  assume "propertyCache st (platform @ '':'' @ url) = Some entry \<and>
        now_check w - timestamp entry < 3600000"
  then show "scrapeProperty w st url platform = (Inr (data entry), st)"
    using scrapeProperty_hit by blast
next
  assume miss: "case propertyCache st (platform @ '':'' @ url) of
       None \<Rightarrow> True | Some entry \<Rightarrow> 3600000 \<le> now_check w - timestamp entry"
  show "launches (snd (scrapeProperty w st url platform)) = launches st + 1"
    by (rule scrapeProperty_miss_launches [OF miss])
  fix d st1
  assume first: "scrapeProperty w st url platform = (Inr d, st1)"
  show stored: "propertyCache st1 (platform @ '':'' @ url) =
           Some \<lparr>timestamp = now_store w, data = d\<rparr>"
    by (rule scrapeProperty_miss_success [OF miss first])
  fix w2 :: world
  {
    assume "now_check w2 - now_store w < 3600000"
    then show "scrapeProperty w2 st1 url platform = (Inr d, st1)"
      using scrapeProperty_hit [OF stored, of w2] by simp
  }
  {
    assume "3600000 \<le> now_check w2 - now_store w"
    then show "launches (snd (scrapeProperty w2 st1 url platform)) = launches st1 + 1"
      using stored by (intro scrapeProperty_miss_launches) simp
  }
qed

text \<open>The round trip on the blank page: a first call at time 1000 that stores at 2000,
  a second call at 3000 and a third after the hour.\<close>

theorem scrapeProperty_cache_witness:
  "let u = ''https://example.com/listing'';
       first = scrapeProperty (blank_world 1000 2000) fresh_state u ''idealista''
   in \<not> isl (fst first) \<and> launches (snd first) = 1 \<and>
      scrapeProperty (blank_world 3000 4000) (snd first) u ''idealista'' = first \<and>
      launches (snd (scrapeProperty (blank_world 3700000 3700001) (snd first) u ''idealista'')) = 2"
proof -
  let ?u = "''https://example.com/listing''"
  let ?w = "blank_world 1000 2000"
  obtain r st1 where first: "scrapeProperty ?w fresh_state ?u ''idealista'' = (r, st1)"
    by (cases "scrapeProperty ?w fresh_state ?u ''idealista''")
  have miss: "case propertyCache fresh_state (''idealista'' @ '':'' @ ?u) of
       None \<Rightarrow> True | Some entry \<Rightarrow> 3600000 \<le> now_check ?w - timestamp entry"
    by (simp add: fresh_state_def)
  have "\<exists>d. r = Inr d"
    using first
    by (auto simp: scrapeProperty_def fresh_state_def blank_world_def dispatch_idealista_blank
        parseIdealista_blank close_browser_def)
  then obtain d where d: "r = Inr d" by blast
  have soon: "now_check (blank_world 3000 4000) - now_store ?w < 3600000"
    and late: "3600000 \<le> now_check (blank_world 3700000 3700001) - now_store ?w"
    by (simp_all add: blank_world_def)
  have l0: "launches fresh_state = 0" by (simp add: fresh_state_def)
  show ?thesis
    using scrapeProperty_cache [of fresh_state "''idealista''" ?u ?w] miss first d soon late l0
    unfolding Let_def by auto
qed

text \<open>
  Claim C5, as stated, fails: the claim says that for an unsupported platform no
  browser session is opened before the failure. With the platform \<open>zoopla\<close> and an
  empty cache the call fails with the error of the unsupported platform, and the
  browser has been launched once by then.
\<close>

theorem scrapeProperty_zoopla:
  "fst (scrapeProperty (blank_world 1000 2000) fresh_state ''https://example.com/listing'' ''zoopla'')
     = Inl (Error ''Unsupported platform: zoopla'') \<and>
   launches fresh_state = 0 \<and>
   launches (snd (scrapeProperty (blank_world 1000 2000) fresh_state
                    ''https://example.com/listing'' ''zoopla'')) = 1"
proof -
  have "toLowerCase ''zoopla'' \<notin> {''idealista'', ''fotocasa'', ''habitaclia''}"
    by (simp add: toLowerCase_def lower_char_def)
  then have "dispatch ''zoopla'' blank_page ''2024-04-01T00:00:00.000Z''
      = Inl (Error ''Unsupported platform: zoopla'')"
    by (simp add: dispatch_unsupported)
  then show ?thesis
    by (simp add: scrapeProperty_def fresh_state_def blank_world_def close_browser_def)
qed

text \<open>
  Claim C5, amended. For every platform name that is none of \<open>idealista\<close>, \<open>fotocasa\<close>
  and \<open>habitaclia\<close> in any letter case, \<open>scrapeProperty\<close> on a cache miss launches the
  browser first, never succeeds and leaves the cache as it is. When the page loads and
  the browser closes without error, the call fails with the error
  \<open>Unsupported platform\<close>, after the browser was launched and closed once. When the
  launch fails, its error is the one returned and nothing is closed; when the
  navigation fails and the browser closes without error, the error of the navigation
  is returned; and when the browser was launched and closing it fails, the error of
  closing is returned.
\<close>

theorem scrapeProperty_unsupported:
  assumes "toLowerCase platform \<notin> {''idealista'', ''fotocasa'', ''habitaclia''}"
    and "case propertyCache st (platform @ '':'' @ url) of
           None \<Rightarrow> True | Some entry \<Rightarrow> 3600000 \<le> now_check w - timestamp entry"
  shows "isl (fst (scrapeProperty w st url platform)) \<and>
     propertyCache (snd (scrapeProperty w st url platform)) = propertyCache st \<and>
     launches (snd (scrapeProperty w st url platform)) = launches st + 1 \<and>
     (\<forall>pg. session w = Loaded pg \<and> close_error w = None \<longrightarrow>
        scrapeProperty w st url platform =
          (Inl (Error (''Unsupported platform: '' @ platform)),
           st\<lparr>launches := launches st + 1, closes := closes st + 1\<rparr>)) \<and>
     (\<forall>e. session w = LaunchFails e \<longrightarrow>
        scrapeProperty w st url platform = (Inl e, st\<lparr>launches := launches st + 1\<rparr>)) \<and>
     (\<forall>e. session w = NavigationFails e \<and> close_error w = None \<longrightarrow>
        scrapeProperty w st url platform =
          (Inl e, st\<lparr>launches := launches st + 1, closes := closes st + 1\<rparr>)) \<and>
     (\<forall>e. close_error w = Some e \<and> (\<forall>e'. session w \<noteq> LaunchFails e') \<longrightarrow>
        scrapeProperty w st url platform =
          (Inl e, st\<lparr>launches := launches st + 1, closes := closes st + 1\<rparr>))"
  unfolding scrapeProperty_miss [OF assms(2)]
  by (cases "session w")
     (auto simp: dispatch_unsupported [OF assms(1)] close_browser_def split: option.splits)

text \<open>The amended claim at the platform \<open>Zoopla\<close> on an empty cache.\<close>

theorem scrapeProperty_unsupported_witness:
  "scrapeProperty (blank_world 1000 2000) fresh_state ''https://example.com/listing'' ''Zoopla'' =
     (Inl (Error ''Unsupported platform: Zoopla''),
      fresh_state\<lparr>launches := 1, closes := 1\<rparr>)"
proof -
  have u: "toLowerCase ''Zoopla'' \<notin> {''idealista'', ''fotocasa'', ''habitaclia''}"
    by (simp add: toLowerCase_def lower_char_def)
  have miss: "case propertyCache fresh_state (''Zoopla'' @ '':'' @ ''https://example.com/listing'') of
       None \<Rightarrow> True
     | Some entry \<Rightarrow> 3600000 \<le> now_check (blank_world 1000 2000) - timestamp entry"
    by (simp add: fresh_state_def)
  show ?thesis
    using scrapeProperty_unsupported [OF u miss]
    by (simp add: blank_world_def fresh_state_def)
qed

section \<open>Properties of the scoring service\<close>

text \<open>The heuristic answer, and the third component of its score, which is always
  20.\<close>

lemma analysis_body_heuristic:
  assumes "financialMetrics pd = Some fm" and "riskAssessment pd = Some ra"
    and "heuristic_path env"
  shows "analysis_body env pd =
     Inr \<lparr>score = js_round (js_add (js_add
                (js_min (js_mul (financial.rentalYield fm) (Fin 10)) (Fin 50))
                (js_min (js_mul (risk.score ra) (double_of 0.3)) (Fin 30)))
                (js_min (js_mul (js_div (if js_gt (squareMeters pd) (Fin 70)
                                        then Fin 80 else Fin 60) (Fin 20)) (Fin 10))
                       (Fin 20))),
          analysis =
                   ''Property analysis complete. This property has a rental yield of '' @
                   toFixed2 env (financial.rentalYield fm) @ ''%, which is '' @
                   (if js_gt (financial.rentalYield fm) (Fin 5) then ''good'' else ''average'') @
                   '' for the Spanish market. The risk assessment is '' @
                   toLowerCase (overall ra) @
                   '', and the location scores are excellent.''\<rparr>"
  using assms unfolding analysis_body_def heuristic_path_def Let_def
  by (auto split: completion.splits option.splits if_splits)

lemma location_score:
  "js_min (js_mul (js_div (if b then Fin 80 else Fin 60) (Fin 20)) (Fin 10)) (Fin 20) = Fin 20"
  by (simp add: double_eval)

text \<open>The sum of the three capped components, rounded, is never greater than 100.\<close>

lemma heuristic_sum_bound:
  "\<not> js_gt (js_round (js_add (js_add (js_min x (Fin 50)) (js_min y (Fin 30))) (Fin 20)))
          (Fin 100)"
proof -
  have "\<not> js_lt (Fin 80) (js_add (js_min x (Fin 50)) (js_min y (Fin 30)))"
    using js_add_at_most [of 50 "js_min x (Fin 50)" 30 "js_min y (Fin 30)"]
    by (simp add: js_min_cap)
  then have "\<not> js_lt (Fin 100) (js_add (js_add (js_min x (Fin 50)) (js_min y (Fin 30))) (Fin 20))"
    using js_add_at_most [of 80 "js_add (js_min x (Fin 50)) (js_min y (Fin 30))" 20 "Fin 20"]
    by simp
  then show ?thesis
    using js_round_at_most [of 100] by (simp add: js_gt_def)
qed

text \<open>The enriched mock listing, and its heuristic score: the yield times 10 is capped
  at 50, the risk score 90 times 0.3 is 27.\<close>

lemma metrics_shape:
  assumes "assessRisk p = Inr ra"
  shows "\<exists>r fm. calculateInvestmentMetrics p = Inr r \<and> financialMetrics r = Some fm \<and>
     financial.rentalYield fm =
       js_mul (js_div (js_mul (to_number (property.estimatedMonthlyRent p)) (Fin 12))
                      (to_number (property.purchasePrice p))) (Fin 100) \<and>
     riskAssessment r = Some ra \<and> squareMeters r = squareMeters p"
  unfolding calculateInvestmentMetrics_def Let_def assms
  by (simp add: property.defs)

lemma mock_enriched:
  "\<exists>r fm ra. calculateInvestmentMetrics (mock_listing ''Madrid'' (Fin 90)) = Inr r \<and>
      financialMetrics r = Some fm \<and>
      financial.rentalYield fm = Fin (5854679515581645 / 1125899906842624) \<and>
      riskAssessment r = Some ra \<and> risk.score ra = Fin 90 \<and> squareMeters r = Fin 90"
proof -
  have y: "js_mul (js_div (js_mul (to_number (property.estimatedMonthlyRent (mock_listing ''Madrid'' (Fin 90)))) (Fin 12))
                      (to_number (property.purchasePrice (mock_listing ''Madrid'' (Fin 90))))) (Fin 100)
      = Fin (5854679515581645 / 1125899906842624)"
    by (simp add: mock_listing_def double_eval)
  have a: "squareMeters (mock_listing ''Madrid'' (Fin 90)) = Fin 90"
    by (simp add: mock_listing_def)
  show ?thesis
    using metrics_shape [OF mock_risk(1) [of "Fin 90"]] unfolding y a by auto
qed

lemma analysis_body_missing:
  "financialMetrics pd = None \<or> riskAssessment pd = None \<Longrightarrow> \<exists>e. analysis_body env pd = Inl e"
  unfolding analysis_body_def by (cases "financialMetrics pd") auto

lemma analysis_body_rejected:
  assumes "completion env = Rejected e"
  shows "analysis_body env pd = analysis_body (env\<lparr>OPENAI_API_KEY := None\<rparr>) pd"
proof (cases "financialMetrics pd")
  case None
  then show ?thesis by (simp add: analysis_body_def)
next
  case fm: (Some fm)
  show ?thesis
  proof (cases "riskAssessment pd")
    case None
    then show ?thesis using fm by (simp add: analysis_body_def)
  next
    case (Some ra)
    then show ?thesis using fm assms
      by (simp add: analysis_body_def key_available_def Let_def)
  qed
qed

text \<open>
  Claim C7. For every enriched record on which the heuristic path is taken, the score
  is, in the arithmetic of doubles, the rounded sum of the rental yield times 10 capped
  at 50, the risk score times 0.3 capped at 30, and 80 or 60 (for an area above 70
  square meters or not) divided by 20, times 10, capped at 20; this value is never
  greater than 100.
\<close>

theorem heuristic_score:
  assumes "financialMetrics pd = Some fm" and "riskAssessment pd = Some ra"
    and "heuristic_path env"
  shows "\<exists>r. generateAIAnalysis env pd = Inr r \<and>
     score r = js_round (js_add (js_add
                (js_min (js_mul (financial.rentalYield fm) (Fin 10)) (Fin 50))
                (js_min (js_mul (risk.score ra) (double_of 0.3)) (Fin 30)))
                (js_min (js_mul (js_div (if js_gt (squareMeters pd) (Fin 70)
                                        then Fin 80 else Fin 60) (Fin 20)) (Fin 10))
                       (Fin 20))) \<and>
     \<not> js_gt (score r) (Fin 100)"
  unfolding generateAIAnalysis_def analysis_body_heuristic [OF assms] location_score
  using heuristic_sum_bound by simp

text \<open>The heuristic score of the enriched mock listing without an API key:
  50 + 27 + 20 = 97.\<close>

theorem heuristic_score_witness:
  "\<exists>r. generateAIAnalysis no_key_env
         (projr (calculateInvestmentMetrics (mock_listing ''Madrid'' (Fin 90)))) = Inr r \<and>
       score r = Fin 97 \<and> \<not> js_gt (score r) (Fin 100)"
proof -
  obtain r fm ra where r: "calculateInvestmentMetrics (mock_listing ''Madrid'' (Fin 90)) = Inr r"
    and fm: "financialMetrics r = Some fm"
      "financial.rentalYield fm = Fin (5854679515581645 / 1125899906842624)"
    and ra: "riskAssessment r = Some ra" "risk.score ra = Fin 90"
    and a: "squareMeters r = Fin 90"
    using mock_enriched by blast
  have h: "heuristic_path no_key_env"
    by (simp add: heuristic_path_def key_available_def no_key_env_def)
  show ?thesis
    using heuristic_score [OF fm(1) ra(1) h] fm(2) ra(2) a r
    by (auto simp: double_eval)
qed

text \<open>
  Claim C2. For every input record, also one without financial metrics or without a
  risk assessment, \<open>generateAIAnalysis\<close> returns a score and an analysis and never
  throws. If the heuristic computation throws, the result is the fixed score 70 with
  the generic text. A rejection of the completion service is not propagated: the
  result is the one of a call without an API key.
\<close>

theorem generateAIAnalysis_total:
  "(\<exists>r. generateAIAnalysis env pd = Inr r) \<and>
   (financialMetrics pd = None \<or> riskAssessment pd = None \<longrightarrow>
      generateAIAnalysis env pd =
        Inr \<lparr>score = Fin 70,
             analysis = ''Analysis could not be completed. Using estimated score based on available data.''\<rparr>) \<and>
   (\<forall>e. completion env = Rejected e \<longrightarrow>
      generateAIAnalysis env pd = generateAIAnalysis (env\<lparr>OPENAI_API_KEY := None\<rparr>) pd)"
proof (intro conjI impI allI)
  show "\<exists>r. generateAIAnalysis env pd = Inr r"
    by (cases "analysis_body env pd") (simp_all add: generateAIAnalysis_def)
next
  assume "financialMetrics pd = None \<or> riskAssessment pd = None"
  then obtain e where "analysis_body env pd = Inl e"
    using analysis_body_missing by blast
  then show "generateAIAnalysis env pd =
        Inr \<lparr>score = Fin 70,
             analysis = ''Analysis could not be completed. Using estimated score based on available data.''\<rparr>"
    by (simp add: generateAIAnalysis_def fallback_analysis_def)
next
  fix e assume "completion env = Rejected e"
  then show "generateAIAnalysis env pd = generateAIAnalysis (env\<lparr>OPENAI_API_KEY := None\<rparr>) pd"
    by (simp only: generateAIAnalysis_def analysis_body_rejected)
qed

text \<open>The scoring of a record without metrics, and of the enriched mock listing, with a
  completion service that rejects.\<close>

theorem generateAIAnalysis_total_witness:
  "generateAIAnalysis rejecting_env
     (property.extend (mock_listing ''Madrid'' (Fin 90))
        \<lparr>financialMetrics = None, riskAssessment = None\<rparr>) =
     Inr \<lparr>score = Fin 70,
          analysis = ''Analysis could not be completed. Using estimated score based on available data.''\<rparr> \<and>
   generateAIAnalysis rejecting_env
     (projr (calculateInvestmentMetrics (mock_listing ''Madrid'' (Fin 90)))) =
   generateAIAnalysis (rejecting_env\<lparr>OPENAI_API_KEY := None\<rparr>)
     (projr (calculateInvestmentMetrics (mock_listing ''Madrid'' (Fin 90))))"
proof -
  have m: "financialMetrics (property.extend (mock_listing ''Madrid'' (Fin 90))
        \<lparr>financialMetrics = None, riskAssessment = None\<rparr>) = None"
    by (simp add: property.defs)
  have c: "completion rejecting_env = Rejected (Error ''timeout'')"
    by (simp add: rejecting_env_def)
  show ?thesis
    using generateAIAnalysis_total [of rejecting_env "property.extend (mock_listing ''Madrid'' (Fin 90))
        \<lparr>financialMetrics = None, riskAssessment = None\<rparr>"]
      generateAIAnalysis_total [of rejecting_env
        "projr (calculateInvestmentMetrics (mock_listing ''Madrid'' (Fin 90)))"] m c
    by simp
qed

end
